theory Spec2Isabelle
  imports Main "HOL-Library.Char_ord" "HOL-Library.List_Lexorder" "HOL-Library.Multiset"
begin

section \<open>Python strings\<close>

text \<open>
  A Python \<open>str\<close> is modelled as a \<open>string\<close>: one \<open>char\<close> per code point, for the
  code points the type \<open>char\<close> has (0 to 255). \<open>str.strip()\<close> with no argument removes the
  characters for which \<open>str.isspace\<close> holds; in that range these are the code points
  9 to 13, 28 to 32, 133 and 160.
\<close>

definition is_space :: "char \<Rightarrow> bool" where
  "is_space c = (of_char c \<in> {9, 10, 11, 12, 13, 28, 29, 30, 31, 32, 133, 160 :: nat})"

definition py_strip :: "string \<Rightarrow> string" where
  "py_strip s = rev (dropWhile is_space (rev (dropWhile is_space s)))"

text \<open>\<open>s.find(c)\<close>: the lowest index of \<open>c\<close> in \<open>s\<close>, or \<open>-1\<close>.\<close>

fun py_find :: "char \<Rightarrow> string \<Rightarrow> int" where
  "py_find c [] = - 1"
| "py_find c (x # xs) =
     (if x = c then 0 else (let r = py_find c xs in if r = - 1 then - 1 else r + 1))"

text \<open>\<open>s.rfind(c)\<close>: the highest index of \<open>c\<close> in \<open>s\<close>, or \<open>-1\<close>.\<close>

definition py_rfind :: "char \<Rightarrow> string \<Rightarrow> int" where
  "py_rfind c s =
     (let r = py_find c (rev s) in if r = - 1 then - 1 else int (length s) - 1 - r)"

text \<open>
  \<open>s[a:b]\<close>: a negative bound counts from the end, and every bound is clamped to the
  length of the string.
\<close>

definition slice_bound :: "int \<Rightarrow> nat \<Rightarrow> nat" where
  "slice_bound i n = (if i < 0 then nat (max 0 (i + int n)) else min (nat i) n)"

definition py_slice :: "string \<Rightarrow> int \<Rightarrow> int \<Rightarrow> string" where
  "py_slice s a b = drop (slice_bound a (length s)) (take (slice_bound b (length s)) s)"

text \<open>\<open>sep.join(parts)\<close>.\<close>

fun py_join :: "string \<Rightarrow> string list \<Rightarrow> string" where
  "py_join sep [] = []"
| "py_join sep [p] = p"
| "py_join sep (p # q # ps) = p @ sep @ py_join sep (q # ps)"

section \<open>Configuration\<close>

definition INDUSTRIES :: "string list" where
  "INDUSTRIES =
     [''Banking'', ''Insurance'', ''Asset Management'', ''Hedge Funds'', ''Pension Funds'',
      ''Energy'', ''Technology'', ''Healthcare'', ''Industrials'', ''Consumer'', ''Real Estate'',
      ''Telecom'', ''Utilities'', ''Other'']"

definition MAIN_CATEGORIES :: "string list" where
  "MAIN_CATEGORIES = [''Retail'', ''Institutional'', ''Nondescript'']"

definition UPLOAD_FOLDER :: string where
  "UPLOAD_FOLDER = ''uploads''"

section \<open>Values and exceptions\<close>

text \<open>
  What \<open>json.loads\<close> returns: \<open>None\<close>, a bool, an int, a float (kept by its literal, no
  arithmetic is done on it), a str, a list or a dict. A dict is kept as its items; a key
  is looked up with \<open>map_of\<close>.
\<close>

datatype json =
    JNull
  | JBool bool
  | JInt int
  | JFloat string
  | JString string
  | JArray "json list"
  | JObject "(string \<times> json) list"

text \<open>
  The exceptions of the program: the \<open>ValueError\<close> that \<open>classify\<close> raises with its
  message, the \<open>AttributeError\<close> of a method looked up on a value that has none (the
  name of the value's type, the name of the attribute), the \<open>OverflowError\<close> of
  \<open>sqlite3\<close> for an integer parameter outside the range of SQLite's INTEGER, and any
  other exception raised inside a library or system call, carried by its text \<open>str(e)\<close>.
\<close>

datatype py_error =
    ValueError string
  | AttributeError string string
  | OverflowError string
  | LibraryError string

definition quote :: string where
  "quote = [CHR 0x27]"

fun exc_str :: "py_error \<Rightarrow> string" where
  "exc_str (ValueError m) = m"
| "exc_str (AttributeError ty attr) =
     quote @ ty @ quote @ '' object has no attribute '' @ quote @ attr @ quote"
| "exc_str (OverflowError m) = m"
| "exc_str (LibraryError m) = m"

text \<open>
  The outcome of \<open>json.loads\<close> on a text: the value, a \<open>JSONDecodeError\<close> with its
  \<open>str(e)\<close>, or another exception (which the \<open>except json.JSONDecodeError\<close> clause does
  not catch).
\<close>

datatype loads_result =
    Loaded json
  | JSONDecodeError string
  | LoadsRaised string

fun type_name :: "json \<Rightarrow> string" where
  "type_name JNull = ''NoneType''"
| "type_name (JBool b) = ''bool''"
| "type_name (JInt i) = ''int''"
| "type_name (JFloat f) = ''float''"
| "type_name (JString s) = ''str''"
| "type_name (JArray xs) = ''list''"
| "type_name (JObject kvs) = ''dict''"

text \<open>\<open>d.get(key, default)\<close> on the items of a dict.\<close>

definition dict_get :: "(string \<times> json) list \<Rightarrow> string \<Rightarrow> json \<Rightarrow> json" where
  "dict_get kvs key dflt = (case map_of kvs key of None \<Rightarrow> dflt | Some v \<Rightarrow> v)"

text \<open>\<open>v.strip()\<close>: only a str has the method.\<close>

fun strip_method :: "json \<Rightarrow> py_error + string" where
  "strip_method (JString s) = Inr (py_strip s)"
| "strip_method v = Inl (AttributeError (type_name v) ''strip'')"

definition bind_err :: "('e + 'a) \<Rightarrow> ('a \<Rightarrow> 'e + 'b) \<Rightarrow> 'e + 'b" where
  "bind_err m f = (case m of Inl e \<Rightarrow> Inl e | Inr x \<Rightarrow> f x)"

section \<open>The classifier's reply parsing\<close>

record classification =
  title :: string
  main_category :: string
  industry :: string
  short_summary :: string
  audience :: string
  audience_confidence :: json
  audience_rationale :: string

definition newline :: string where
  "newline = [CHR 0x0A]"

text \<open>Lines 638 to 642 of \<open>classify\<close>: the text handed to \<open>json.loads\<close>.\<close>

definition json_str :: "string \<Rightarrow> string" where
  "json_str content =
     (let first_brace = py_find (CHR ''{'') content;
          last_brace = py_rfind (CHR ''}'') content
      in if first_brace \<noteq> - 1 \<and> last_brace \<noteq> - 1 \<and> last_brace > first_brace
         then py_slice content first_brace (last_brace + 1)
         else content)"

text \<open>The message of the \<open>ValueError\<close> raised at lines 647 to 652.\<close>

definition format_error :: "string \<Rightarrow> string \<Rightarrow> string" where
  "format_error content e =
     ''Model did not return valid JSON.'' @ newline @ newline @
     ''Raw reply was:'' @ newline @ content @ newline @ newline @
     ''JSON error: '' @ e"

text \<open>
  Lines 654 to 675: the fields of the parsed value, in the order the source evaluates
  them. \<open>data.get\<close> exists only on a dict; \<open>.strip()\<close> only on a str.
\<close>

definition extract_fields :: "json \<Rightarrow> py_error + classification" where
  "extract_fields data =
     (case data of
        JObject kvs \<Rightarrow>
          bind_err (strip_method (dict_get kvs ''title'' (JString ''Untitled''))) (\<lambda>title'.
          bind_err (strip_method (dict_get kvs ''audience'' (JString ''Nondescript''))) (\<lambda>audience'.
          bind_err (strip_method (dict_get kvs ''industry'' (JString ''Other''))) (\<lambda>industry'.
          bind_err (strip_method (dict_get kvs ''short_summary'' (JString ''''))) (\<lambda>short_summary'.
          bind_err (strip_method (dict_get kvs ''audience_rationale'' (JString ''''))) (\<lambda>rationale'.
            Inr \<lparr> title = title',
                  main_category =
                    (if audience' \<notin> set MAIN_CATEGORIES then ''Nondescript'' else audience'),
                  industry = (if industry' \<notin> set INDUSTRIES then ''Other'' else industry'),
                  short_summary = short_summary',
                  audience = audience',
                  audience_confidence = dict_get kvs ''audience_confidence'' (JInt 0),
                  audience_rationale = rationale' \<rparr>)))))
      | _ \<Rightarrow> Inl (AttributeError (type_name data) ''get''))"

text \<open>
  Lines 635 to 675 of \<open>classify\<close>, from the reply of the model on: \<open>loads\<close> is
  \<open>json.loads\<close>, \<open>reply\<close> is \<open>response.choices[0].message.content\<close>.
\<close>

definition parse_reply :: "(string \<Rightarrow> loads_result) \<Rightarrow> string \<Rightarrow> py_error + classification" where
  "parse_reply loads reply =
     (let content = py_strip reply in
      case loads (json_str content) of
        JSONDecodeError e \<Rightarrow> Inl (ValueError (format_error content e))
      | LoadsRaised m \<Rightarrow> Inl (LibraryError m)
      | Loaded data \<Rightarrow> extract_fields data)"

section \<open>The store, the file stage and the outside world\<close>

type_synonym bytes = "nat list"

text \<open>A row of the table \<open>whitepapers\<close>; \<open>wp_file_path\<close> is \<open>None\<close> for SQL NULL.\<close>

record whitepaper =
  wp_id :: int
  wp_title :: string
  wp_source :: string
  wp_main_category :: string
  wp_industry :: string
  wp_short_summary :: string
  wp_file_path :: "string option"
  wp_created_at :: string

text \<open>The calls that leave the process, in the order they are made.\<close>

datatype call =
    FileSave string bytes
  | HttpGet string
  | ChatCompletion string string

text \<open>
  The state a request works on: the rows of the table in table order, the largest id the
  table has ever issued (SQLite's \<open>sqlite_sequence\<close> of an \<open>AUTOINCREMENT\<close> key), the
  files on disk by path, and the log of the calls made so far.
\<close>

record world =
  rows :: "whitepaper list"
  seq :: int
  files :: "string \<rightharpoonup> bytes"
  calls :: "call list"

text \<open>
  The libraries and services the program calls, as parameters: the chat completion of
  the model (API key and text snippet to the reply's content), \<open>json.loads\<close>,
  \<open>requests.get\<close> followed by \<open>raise_for_status\<close>, the page texts \<open>pdfplumber\<close> extracts
  (\<open>None\<close> for a page without text), werkzeug's \<open>secure_filename\<close>, the decimal text of
  \<open>int(time.time())\<close>, the text of \<open>datetime.utcnow().isoformat()\<close>, the paths on
  which \<open>os.remove\<close> raises \<open>OSError\<close>, the \<open>OSError\<close> (if any) with which creating the
  upload folder or saving an upload under a path fails, and the \<open>OSError\<close> (if any) with
  which reading a saved file back fails. A failing library call gives \<open>Inl\<close> of the text
  of its exception. The database itself is taken to be available.
\<close>

record env =
  chat_completion :: "string \<Rightarrow> string \<Rightarrow> string + string"
  json_loads :: "string \<Rightarrow> loads_result"
  requests_get :: "string \<Rightarrow> string + bytes"
  pdf_pages :: "bytes \<Rightarrow> string + string option list"
  secure_filename :: "string \<Rightarrow> string"
  time_text :: string
  utcnow_isoformat :: string
  remove_raises :: "string \<Rightarrow> bool"
  save_error :: "string \<Rightarrow> bytes \<Rightarrow> string option"
  open_error :: "string \<Rightarrow> string option"

definition lib_result :: "string + 'a \<Rightarrow> py_error + 'a" where
  "lib_result r = (case r of Inl m \<Rightarrow> Inl (LibraryError m) | Inr x \<Rightarrow> Inr x)"

subsection \<open>Store operations\<close>

definition next_id :: "world \<Rightarrow> int" where
  "next_id w = max (seq w) (fold max (map wp_id (rows w)) 0) + 1"

definition save_whitepaper ::
  "env \<Rightarrow> string \<Rightarrow> string \<Rightarrow> string \<Rightarrow> string \<Rightarrow> string \<Rightarrow> string option \<Rightarrow> world \<Rightarrow> world" where
  "save_whitepaper e ttl src cat ind summ fpath w =
     w\<lparr> rows := rows w @
            [\<lparr> wp_id = next_id w, wp_title = ttl, wp_source = src, wp_main_category = cat,
               wp_industry = ind, wp_short_summary = summ, wp_file_path = fpath,
               wp_created_at = utcnow_isoformat e \<rparr>],
        seq := next_id w \<rparr>"

text \<open>\<open>cur.fetchone()\<close> after \<open>SELECT file_path FROM whitepapers WHERE id = ?\<close>.\<close>

definition select_file_path :: "world \<Rightarrow> int \<Rightarrow> string option option" where
  "select_file_path w i = map_option wp_file_path (find (\<lambda>r. wp_id r = i) (rows w))"

text \<open>
  An integer that \<open>sqlite3\<close> can bind as a parameter: SQLite's INTEGER is a signed
  64-bit value, and binding any other Python int raises \<open>OverflowError\<close>.
\<close>

definition sqlite_int :: "int \<Rightarrow> bool" where
  "sqlite_int i = (- (2 ^ 63) \<le> i \<and> i < 2 ^ 63)"

definition sqlite_overflow :: py_error where
  "sqlite_overflow = OverflowError ''Python int too large to convert to SQLite INTEGER''"

text \<open>
  \<open>delete_whitepaper\<close>: the first statement binds the id, and raises when it cannot be
  bound. The file of the row is removed when the row exists, its \<open>file_path\<close> is a
  non-empty text and the file is on disk; an \<open>OSError\<close> of \<open>os.remove\<close> is passed over.
  Then the rows with that id are deleted.
\<close>

definition remove_file :: "env \<Rightarrow> string \<Rightarrow> (string \<rightharpoonup> bytes) \<Rightarrow> (string \<rightharpoonup> bytes)" where
  "remove_file e path fs =
     (if fs path \<noteq> None \<and> \<not> remove_raises e path then fs(path := None) else fs)"

definition delete_whitepaper :: "env \<Rightarrow> int \<Rightarrow> world \<Rightarrow> py_error + world" where
  "delete_whitepaper e i w =
     (if \<not> sqlite_int i then Inl sqlite_overflow
      else
        (let fs = (case select_file_path w i of
                     Some (Some path) \<Rightarrow>
                       if path \<noteq> [] then remove_file e path (files w) else files w
                   | _ \<Rightarrow> files w)
         in Inr (w\<lparr> rows := filter (\<lambda>r. wp_id r \<noteq> i) (rows w), files := fs \<rparr>)))"

definition load_whitepapers :: "world \<Rightarrow> whitepaper list" where
  "load_whitepapers w = rows w"

subsection \<open>Text extraction and classification\<close>

definition extract_text :: "env \<Rightarrow> bytes \<Rightarrow> py_error + string" where
  "extract_text e pdf_bytes =
     bind_err (lib_result (pdf_pages e pdf_bytes)) (\<lambda>pages.
       Inr (py_join newline (map (\<lambda>p. case p of None \<Rightarrow> [] | Some t \<Rightarrow> t) pages)))"

text \<open>
  \<open>classify\<close>: one chat completion on the first 8000 characters of the text (the two
  prompts are fixed texts around that snippet), then the parsing of the reply.
\<close>

definition classify :: "env \<Rightarrow> string \<Rightarrow> string \<Rightarrow> world \<Rightarrow> (py_error + classification) \<times> world" where
  "classify e api_key text w =
     (let snippet = take 8000 text;
          w' = w\<lparr> calls := calls w @ [ChatCompletion api_key snippet] \<rparr>
      in (bind_err (lib_result (chat_completion e api_key snippet)) (parse_reply (json_loads e)), w'))"

section \<open>The upload action of \<open>index\<close>\<close>

text \<open>
  The form of a POST with action \<open>upload\<close>: a field that was not sent is \<open>None\<close>; the
  uploaded file is its filename and its content.
\<close>

record upload_form =
  form_api_key :: "string option"
  form_pdf_file :: "(string \<times> bytes) option"
  form_pdf_url :: "string option"

text \<open>\<open>request.form.get(name, dflt)\<close>.\<close>

definition param_get :: "string option \<Rightarrow> string \<Rightarrow> string" where
  "param_get v dflt = (case v of None \<Rightarrow> dflt | Some s \<Rightarrow> s)"

text \<open>The truth value of the uploaded file: a \<open>FileStorage\<close> is true when its filename is not empty.\<close>

definition file_given :: "(string \<times> bytes) option \<Rightarrow> bool" where
  "file_given f = (case f of None \<Rightarrow> False | Some (filename, content) \<Rightarrow> filename \<noteq> [])"

text \<open>The upload ends in the redirect to the listing, or falls through with a message and \<open>error = True\<close>.\<close>

datatype outcome = Redirect | Failed string

text \<open>Lines 715 to 717: the path under which an uploaded file is staged.\<close>

definition staged_path :: "env \<Rightarrow> string \<Rightarrow> string" where
  "staged_path e filename = UPLOAD_FOLDER @ ''/'' @ time_text e @ ''_'' @ secure_filename e filename"

text \<open>
  Lines 714 to 721: the upload is saved under its staged path and read back. When the
  folder cannot be created or the file cannot be saved, the \<open>OSError\<close> is raised and no
  file is on disk; when the saved file cannot be read back, it is raised with the file on
  disk.
\<close>

definition stage_upload ::
  "env \<Rightarrow> string \<Rightarrow> bytes \<Rightarrow> world \<Rightarrow>
     (py_error + (string option \<times> string \<times> bytes)) \<times> world" where
  "stage_upload e filename content w =
     (let file_path = staged_path e filename;
          w0 = w\<lparr> calls := calls w @ [FileSave file_path content] \<rparr>
      in case save_error e file_path content of
           Some x \<Rightarrow> (Inl (LibraryError x), w0)
         | None \<Rightarrow>
             (let w1 = w0\<lparr> files := (files w)(file_path \<mapsto> content) \<rparr>
              in case open_error e file_path of
                   Some x \<Rightarrow> (Inl (LibraryError x), w1)
                 | None \<Rightarrow> (Inr (Some file_path, ''File: '' @ filename, content), w1)))"

text \<open>
  Lines 712 to 726: the staged path (if any), the source tag and the bytes of the PDF.
\<close>

definition acquire ::
  "env \<Rightarrow> (string \<times> bytes) option \<Rightarrow> string \<Rightarrow> world \<Rightarrow>
     (py_error + (string option \<times> string \<times> bytes)) \<times> world" where
  "acquire e pdf_file pdf_url w =
     (case (if file_given pdf_file then pdf_file else None) of
        Some (filename, content) \<Rightarrow> stage_upload e filename content w
      | None \<Rightarrow>
          (let w' = w\<lparr> calls := calls w @ [HttpGet pdf_url] \<rparr>
           in (bind_err (lib_result (requests_get e pdf_url))
                 (\<lambda>content. Inr (None, ''URL: '' @ pdf_url, content)), w')))"

definition error_banner :: "py_error \<Rightarrow> outcome" where
  "error_banner x = Failed (''Error: '' @ exc_str x)"

text \<open>Lines 700 to 745.\<close>

definition index_upload :: "env \<Rightarrow> upload_form \<Rightarrow> world \<Rightarrow> outcome \<times> world" where
  "index_upload e form w =
     (let api_key = py_strip (param_get (form_api_key form) []);
          pdf_file = form_pdf_file form;
          pdf_url = py_strip (param_get (form_pdf_url form) [])
      in if api_key = [] then (Failed ''OpenAI API key is required.'', w)
         else if \<not> file_given pdf_file \<and> pdf_url = []
         then (Failed ''Please upload a PDF file or provide a PDF URL.'', w)
         else
           (case acquire e pdf_file pdf_url w of
              (Inl x, w1) \<Rightarrow> (error_banner x, w1)
            | (Inr (file_path, source, pdf_bytes), w1) \<Rightarrow>
                (case extract_text e pdf_bytes of
                   Inl x \<Rightarrow> (error_banner x, w1)
                 | Inr text \<Rightarrow>
                     if py_strip text = []
                     then (Failed ''Could not extract any text from the PDF.'', w1)
                     else
                       (case classify e api_key text w1 of
                          (Inl x, w2) \<Rightarrow> (error_banner x, w2)
                        | (Inr result, w2) \<Rightarrow>
                            (Redirect,
                             save_whitepaper e (title result) source (main_category result)
                               (industry result) (short_summary result) file_path w2)))))"

section \<open>The listing view of \<open>index\<close>\<close>

text \<open>
  \<open>sorted(xs, key=k, reverse=r)\<close>: a stable sort; with \<open>reverse\<close> the list is reversed,
  sorted and reversed again, so that records with equal keys keep their order.
\<close>

definition py_sorted :: "('a \<Rightarrow> 'k::linorder) \<Rightarrow> bool \<Rightarrow> 'a list \<Rightarrow> 'a list" where
  "py_sorted k reverse xs = (if reverse then rev (sort_key k (rev xs)) else sort_key k xs)"

text \<open>Line 684: \<open>request.args.get("sort_order", "newest").strip() or "newest"\<close>.\<close>

definition sort_order_arg :: "string option \<Rightarrow> string" where
  "sort_order_arg a = (let s = py_strip (param_get a ''newest'') in if s = [] then ''newest'' else s)"

text \<open>Lines 748 to 751, on the trimmed filters.\<close>

definition apply_filters :: "string \<Rightarrow> string \<Rightarrow> whitepaper list \<Rightarrow> whitepaper list" where
  "apply_filters filter_main_category filter_industry whitepapers =
     (let ws1 = (if filter_main_category \<noteq> []
                 then filter (\<lambda>w. wp_main_category w = filter_main_category) whitepapers
                 else whitepapers);
          ws2 = (if filter_industry \<noteq> []
                 then filter (\<lambda>w. wp_industry w = filter_industry) ws1
                 else ws1)
      in ws2)"

text \<open>Lines 753 to 755.\<close>

definition sort_view :: "string \<Rightarrow> whitepaper list \<Rightarrow> whitepaper list" where
  "sort_view sort_order whitepapers =
     py_sorted wp_created_at (sort_order = ''newest'') whitepapers"

text \<open>Lines 682 to 684 and 747 to 755: the records handed to the template.\<close>

definition index_view ::
  "string option \<Rightarrow> string option \<Rightarrow> string option \<Rightarrow> world \<Rightarrow> whitepaper list" where
  "index_view arg_main_category arg_industry arg_sort_order w =
     sort_view (sort_order_arg arg_sort_order)
       (apply_filters (py_strip (param_get arg_main_category []))
          (py_strip (param_get arg_industry [])) (load_whitepapers w))"

section \<open>Notions used in the statements\<close>

text \<open>\<open>i\<close> is the position of the first \<open>c\<close> in \<open>s\<close>; \<open>j\<close> is the position of the last one.\<close>

definition first_at :: "char \<Rightarrow> string \<Rightarrow> nat \<Rightarrow> bool" where
  "first_at c s i = (i < length s \<and> s ! i = c \<and> c \<notin> set (take i s))"

definition last_at :: "char \<Rightarrow> string \<Rightarrow> nat \<Rightarrow> bool" where
  "last_at c s j = (j < length s \<and> s ! j = c \<and> c \<notin> set (drop (Suc j) s))"

text \<open>A text without surrounding whitespace.\<close>

definition trimmed :: "string \<Rightarrow> bool" where
  "trimmed s = (s = [] \<or> (\<not> is_space (hd s) \<and> \<not> is_space (last s)))"

text \<open>
  The five keys whose values \<open>classify\<close> trims; a key is fine when it is absent or its
  value is a str. \<open>field_text\<close> is the trimmed value of such a key (the trimmed default
  when it is absent), and \<open>fields_result\<close> the result built from these texts.
\<close>

definition text_or_absent :: "(string \<times> json) list \<Rightarrow> string \<Rightarrow> bool" where
  "text_or_absent kvs k =
     (case map_of kvs k of None \<Rightarrow> True | Some v \<Rightarrow> (case v of JString s \<Rightarrow> True | _ \<Rightarrow> False))"

definition text_keys :: "string list" where
  "text_keys = [''title'', ''audience'', ''industry'', ''short_summary'', ''audience_rationale'']"

definition field_text :: "(string \<times> json) list \<Rightarrow> string \<Rightarrow> string \<Rightarrow> string" where
  "field_text kvs k dflt = (case map_of kvs k of Some (JString s) \<Rightarrow> py_strip s | _ \<Rightarrow> py_strip dflt)"

definition fields_result :: "(string \<times> json) list \<Rightarrow> classification" where
  "fields_result kvs =
     \<lparr> title = field_text kvs ''title'' ''Untitled'',
       main_category =
         (if field_text kvs ''audience'' ''Nondescript'' \<notin> set MAIN_CATEGORIES then ''Nondescript''
          else field_text kvs ''audience'' ''Nondescript''),
       industry =
         (if field_text kvs ''industry'' ''Other'' \<notin> set INDUSTRIES then ''Other''
          else field_text kvs ''industry'' ''Other''),
       short_summary = field_text kvs ''short_summary'' [],
       audience = field_text kvs ''audience'' ''Nondescript'',
       audience_confidence = dict_get kvs ''audience_confidence'' (JInt 0),
       audience_rationale = field_text kvs ''audience_rationale'' [] \<rparr>"

section \<open>Sample inputs\<close>

text \<open>
  Replies of the model and the values Python's \<open>json.loads\<close> gives on the texts handed
  to it for them. The table stands for \<open>json.loads\<close> on these texts only; any other text
  is marked as outside the table.
\<close>

definition text_scenario :: string where
  \<open>text_scenario =
     ''{"title":"T","audience":"Retail","audience_confidence":90,"audience_rationale":"r","industry":"Energy","short_summary":"s"}''\<close>

definition text_unlisted :: string where
  \<open>text_unlisted = ''{"audience": " Wholesale ", "industry": "Crypto"}''\<close>

definition text_null_title :: string where
  \<open>text_null_title = ''{"title": null}''\<close>

definition text_null_audience :: string where
  \<open>text_null_audience = ''{"audience": null}''\<close>

definition text_title_only :: string where
  \<open>text_title_only = ''{"title":"T"}''\<close>

definition text_braced_prose :: string where
  \<open>text_braced_prose = ''{sic}: {"title":"T"}''\<close>

definition sample_loads :: "string \<Rightarrow> loads_result" where
  "sample_loads s =
     (if s = text_scenario then
        Loaded (JObject [(''title'', JString ''T''), (''audience'', JString ''Retail''),
          (''audience_confidence'', JInt 90), (''audience_rationale'', JString ''r''),
          (''industry'', JString ''Energy''), (''short_summary'', JString ''s'')])
      else if s = text_unlisted then
        Loaded (JObject [(''audience'', JString '' Wholesale ''), (''industry'', JString ''Crypto'')])
      else if s = text_null_title then Loaded (JObject [(''title'', JNull)])
      else if s = text_null_audience then Loaded (JObject [(''audience'', JNull)])
      else if s = text_title_only then Loaded (JObject [(''title'', JString ''T'')])
      else if s = ''{}'' then Loaded (JObject [])
      else if s = ''42'' then Loaded (JInt 42)
      else if s = ''not json at all'' then
        JSONDecodeError ''Expecting value: line 1 column 1 (char 0)''
      else if s = text_braced_prose then
        JSONDecodeError
          ''Expecting property name enclosed in double quotes: line 1 column 2 (char 1)''
      else LoadsRaised ''outside the sample table'')"

text \<open>
  A reply nested so deeply that \<open>json.loads\<close> raises \<open>RecursionError\<close>, and the table
  extended by it.
\<close>

definition text_deep :: string where
  "text_deep = replicate 100000 (CHR ''['')"

definition deep_loads :: "string \<Rightarrow> loads_result" where
  "deep_loads s =
     (if s = text_deep then
        LoadsRaised
          ''maximum recursion depth exceeded while decoding a JSON array from a unicode string''
      else sample_loads s)"

text \<open>
  An environment in which the model answers \<open>reply\<close>, one URL serves a document, one
  byte sequence is a PDF with a page of text and a page without, and the clock stands still.
\<close>

definition sample_pdf :: bytes where
  "sample_pdf = [37, 80, 68, 70]"

definition sample_env :: "string \<Rightarrow> env" where
  "sample_env reply =
     \<lparr> chat_completion = (\<lambda>api_key snippet. Inr reply),
       json_loads = sample_loads,
       requests_get = (\<lambda>url. if url = ''https://example.com/a.pdf'' then Inr sample_pdf
                              else Inl (''404 Client Error: Not Found for url: '' @ url)),
       pdf_pages = (\<lambda>b. if b = sample_pdf then Inr [Some ''Funds and bonds'', None]
                          else if b = [] then Inr [None]
                          else Inl ''No /Root object! - Is this really a PDF?''),
       secure_filename = (\<lambda>n. if n = ''a paper.pdf'' then ''a_paper.pdf'' else n),
       time_text = ''1700000000'',
       utcnow_isoformat = ''2023-11-14T22:13:20.000123'',
       remove_raises = (\<lambda>path. False),
       save_error = (\<lambda>path content. None),
       open_error = (\<lambda>path. None) \<rparr>"

definition sample_row :: "int \<Rightarrow> string \<Rightarrow> string \<Rightarrow> string \<Rightarrow> whitepaper" where
  "sample_row i cat ind stamp =
     \<lparr> wp_id = i, wp_title = ''T'', wp_source = ''URL: https://example.com/a.pdf'',
       wp_main_category = cat, wp_industry = ind, wp_short_summary = ''s'',
       wp_file_path = None, wp_created_at = stamp \<rparr>"

definition sample_world :: world where
  "sample_world =
     \<lparr> rows = [sample_row 1 ''Retail'' ''Energy'' ''2023-11-14T22:13:20.000123'',
               sample_row 2 ''Institutional'' ''Energy'' ''2023-11-12T08:00:00''],
       seq = 2, files = Map.empty, calls = [] \<rparr>"


text \<open>Upload forms: one with a file and a URL, one with a URL only.\<close>

definition form_both :: upload_form where
  "form_both =
     \<lparr> form_api_key = Some '' sk-test '',
       form_pdf_file = Some (''a paper.pdf'', sample_pdf),
       form_pdf_url = Some ''https://example.com/a.pdf'' \<rparr>"

definition form_url :: "string \<Rightarrow> upload_form" where
  "form_url u = \<lparr> form_api_key = Some ''sk-test'', form_pdf_file = None, form_pdf_url = Some u \<rparr>"

text \<open>Two records created at the same instant.\<close>

definition tied_rows :: "whitepaper list" where
  "tied_rows =
     [sample_row 1 ''Retail'' ''Energy'' ''2023-11-12T08:00:00'',
      sample_row 2 ''Institutional'' ''Banking'' ''2023-11-12T08:00:00'']"

section \<open>Strings: searching, slicing, trimming\<close>

lemmas sample_texts =
  text_scenario_def text_unlisted_def text_null_title_def text_null_audience_def
  text_title_only_def text_braced_prose_def

lemmas string_ops =
  json_str_def py_strip_def is_space_def py_rfind_def py_slice_def slice_bound_def

lemma py_find_takeWhile:
  "py_find c s = (if c \<in> set s then int (length (takeWhile (\<lambda>x. x \<noteq> c) s)) else - 1)"
  by (induction s) (auto simp: Let_def)

lemma first_at_takeWhile:
  assumes "first_at c s i"
  shows "length (takeWhile (\<lambda>x. x \<noteq> c) s) = i"
proof -
  from assms have i: "i < length s" "s ! i = c" "c \<notin> set (take i s)"
    by (auto simp: first_at_def)
  have s: "s = take i s @ (s ! i) # drop (Suc i) s"
    using i(1) by (simp add: id_take_nth_drop)
  have "takeWhile (\<lambda>x. x \<noteq> c) (take i s @ (s ! i) # drop (Suc i) s) = take i s"
    using i(2,3) by (subst takeWhile_append2) auto
  with s have "takeWhile (\<lambda>x. x \<noteq> c) s = take i s" by simp
  then show ?thesis using i(1) by simp
qed

lemma py_find_first_at:
  assumes "first_at c s i"
  shows "py_find c s = int i"
proof -
  from assms have "c \<in> set s" by (auto simp: first_at_def)
  then show ?thesis using first_at_takeWhile[OF assms] by (simp add: py_find_takeWhile)
qed

lemma last_at_rev:
  assumes "last_at c s j"
  shows "first_at c (rev s) (length s - 1 - j)"
proof -
  from assms have j: "j < length s" "s ! j = c" "c \<notin> set (drop (Suc j) s)"
    by (auto simp: last_at_def)
  have "rev s ! (length s - 1 - j) = s ! j"
    using j(1) by (simp add: rev_nth)
  moreover have "take (length s - 1 - j) (rev s) = rev (drop (Suc j) s)"
    using j(1) by (simp add: take_rev)
  ultimately show ?thesis using j by (simp add: first_at_def)
qed

lemma py_rfind_last_at:
  assumes "last_at c s j"
  shows "py_rfind c s = int j"
proof -
  from assms have j: "j < length s" by (simp add: last_at_def)
  have "py_find c (rev s) = int (length s - 1 - j)"
    by (rule py_find_first_at[OF last_at_rev[OF assms]])
  then show ?thesis using j by (simp add: py_rfind_def Let_def)
qed

lemma py_find_absent: "c \<notin> set s \<Longrightarrow> py_find c s = - 1"
  by (simp add: py_find_takeWhile)

lemma py_rfind_absent: "c \<notin> set s \<Longrightarrow> py_rfind c s = - 1"
  by (simp add: py_rfind_def py_find_takeWhile)

lemma py_slice_nonneg:
  "i \<le> j \<Longrightarrow> j < length s \<Longrightarrow> py_slice s (int i) (int j + 1) = take (j - i + 1) (drop i s)"
  by (simp add: py_slice_def slice_bound_def drop_take nat_add_distrib min_def Suc_diff_le)

lemma json_str_absent:
  "CHR ''{'' \<notin> set content \<or> CHR ''}'' \<notin> set content \<Longrightarrow> json_str content = content"
  by (auto simp: json_str_def Let_def py_find_absent py_rfind_absent)

lemma json_str_located:
  assumes "first_at (CHR ''{'') content i" "last_at (CHR ''}'') content j"
  shows "json_str content = (if i < j then take (j - i + 1) (drop i content) else content)"
proof -
  have j: "j < length content" using assms(2) by (simp add: last_at_def)
  show ?thesis
    using py_find_first_at[OF assms(1)] py_rfind_last_at[OF assms(2)] j
    by (simp add: json_str_def Let_def py_slice_nonneg)
qed

lemma trimmed_py_strip: "trimmed (py_strip s)"
proof -
  define ys where "ys = dropWhile is_space s"
  define zs where "zs = dropWhile is_space (rev ys)"
  have strip: "py_strip s = rev zs" by (simp add: py_strip_def ys_def zs_def)
  show ?thesis
  proof (cases "zs = []")
    case True
    then show ?thesis by (simp add: strip trimmed_def)
  next
    case False
    then have hz: "\<not> is_space (hd zs)" unfolding zs_def by (rule hd_dropWhile)
    from False have "ys \<noteq> []" by (auto simp: zs_def)
    then have hy: "\<not> is_space (hd ys)" unfolding ys_def by (rule hd_dropWhile)
    have "rev ys = takeWhile is_space (rev ys) @ zs" by (simp add: zs_def)
    then have "last (rev ys) = last zs" using False by (metis last_appendR)
    then have "last zs = hd ys" using \<open>ys \<noteq> []\<close> by (simp add: last_rev)
    with hz hy False show ?thesis
      by (simp add: strip trimmed_def hd_rev last_rev)
  qed
qed

section \<open>The text handed to the JSON parser\<close>

lemma parse_reply_depends:
  "loads (json_str (py_strip reply)) = loads' (json_str (py_strip reply)) \<Longrightarrow>
   parse_reply loads reply = parse_reply loads' reply"
  by (simp add: parse_reply_def Let_def)

text \<open>
  Claim C2. The text parsed for a reply is \<open>json_str\<close> of the stripped reply, and nothing
  else of the parser is consulted (two parsers that agree on that text give the same
  result). With the first \<open>{\<close> at position \<open>i\<close> and the last \<open>}\<close> at position \<open>j\<close>, it is
  the slice from \<open>i\<close> through \<open>j\<close> inclusive when \<open>i < j\<close>, and the whole text otherwise;
  when one of the two braces does not occur, it is the whole text.
\<close>

theorem json_str_first_last:
  "(CHR ''{'' \<notin> set content \<or> CHR ''}'' \<notin> set content \<longrightarrow> json_str content = content) \<and>
   (first_at (CHR ''{'') content i \<and> last_at (CHR ''}'') content j \<longrightarrow>
      json_str content = (if i < j then take (j - i + 1) (drop i content) else content)) \<and>
   (loads (json_str (py_strip reply)) = loads' (json_str (py_strip reply)) \<longrightarrow>
      parse_reply loads reply = parse_reply loads' reply)"
  using json_str_absent[of content] json_str_located[of content i j]
    parse_reply_depends[of loads reply loads']
  by blast

theorem json_str_first_last_witness:
  \<open>first_at (CHR ''{'') ''Sure: {"title": null} bye'' 6 \<and>
   last_at (CHR ''}'') ''Sure: {"title": null} bye'' 20 \<and>
   json_str ''Sure: {"title": null} bye'' = ''{"title": null}'' \<and>
   first_at (CHR ''{'') ''} {'' 2 \<and> last_at (CHR ''}'') ''} {'' 0 \<and>
   json_str ''} {'' = ''} {'' \<and>
   CHR ''{'' \<notin> set ''not json at all'' \<and>
   json_str ''not json at all'' = ''not json at all'' \<and>
   parse_reply sample_loads '' 42 '' = parse_reply (\<lambda>s. Loaded (JInt 42)) '' 42 ''\<close>
  using json_str_first_last[of \<open>''Sure: {"title": null} bye''\<close> 6 20 sample_loads "[]" sample_loads]
    json_str_first_last[of \<open>''} {''\<close> 2 0 sample_loads "[]" sample_loads]
    json_str_first_last[of \<open>''not json at all''\<close> 0 0 sample_loads \<open>'' 42 ''\<close> "\<lambda>s. Loaded (JInt 42)"]
  by (simp add: first_at_def last_at_def sample_loads_def sample_texts string_ops)

section \<open>Field extraction\<close>

lemma strip_method_Inr_iff:
  "strip_method v = Inr x \<longleftrightarrow> (\<exists>s. v = JString s \<and> x = py_strip s)"
  by (cases v) auto

lemma strip_method_Inl:
  "(\<forall>s. v \<noteq> JString s) \<Longrightarrow> strip_method v = Inl (AttributeError (type_name v) ''strip'')"
  by (cases v) auto

lemma strip_field_ok:
  "text_or_absent kvs k \<Longrightarrow>
   strip_method (dict_get kvs k (JString d)) = Inr (field_text kvs k d)"
  by (auto simp: text_or_absent_def dict_get_def field_text_def split: option.splits json.splits)

lemma strip_field_bad:
  "\<not> text_or_absent kvs k \<Longrightarrow>
   \<exists>v. map_of kvs k = Some v \<and> (\<forall>s. v \<noteq> JString s) \<and>
       strip_method (dict_get kvs k (JString d)) = Inl (AttributeError (type_name v) ''strip'')"
  by (auto simp: text_or_absent_def dict_get_def split: option.splits json.splits)

lemma extract_fields_ok:
  assumes "\<forall>k \<in> set text_keys. text_or_absent kvs k"
  shows "extract_fields (JObject kvs) = Inr (fields_result kvs)"
  using assms
  by (simp add: extract_fields_def text_keys_def strip_field_ok bind_err_def fields_result_def)

lemma extract_fields_bad:
  assumes "\<not> (\<forall>k \<in> set text_keys. text_or_absent kvs k)"
  shows "\<exists>ty. extract_fields (JObject kvs) = Inl (AttributeError ty ''strip'')"
proof -
  have c: "\<And>k d. text_or_absent kvs k \<or>
      (\<exists>ty. strip_method (dict_get kvs k (JString d)) = Inl (AttributeError ty ''strip''))"
    using strip_field_bad by blast
  show ?thesis
    using assms c[of "''title''" "''Untitled''"] c[of "''audience''" "''Nondescript''"]
      c[of "''industry''" "''Other''"] c[of "''short_summary''" "[]"]
      c[of "''audience_rationale''" "[]"]
    by (auto simp: extract_fields_def text_keys_def strip_field_ok bind_err_def)
qed

lemma extract_fields_Inr_iff:
  "extract_fields (JObject kvs) = Inr r \<longleftrightarrow>
     (\<forall>k \<in> set text_keys. text_or_absent kvs k) \<and> r = fields_result kvs"
proof (cases "\<forall>k \<in> set text_keys. text_or_absent kvs k")
  case True
  then show ?thesis using extract_fields_ok[OF True] by auto
next
  case False
  then show ?thesis using extract_fields_bad[OF False] by auto
qed

lemma extract_fields_not_dict:
  "(\<forall>kvs. v \<noteq> JObject kvs) \<Longrightarrow> extract_fields v = Inl (AttributeError (type_name v) ''get'')"
  by (cases v) (auto simp: extract_fields_def)

lemma field_text_absent: "map_of kvs k = None \<Longrightarrow> field_text kvs k d = py_strip d"
  by (simp add: field_text_def)

lemma field_text_present: "map_of kvs k = Some (JString s) \<Longrightarrow> field_text kvs k d = py_strip s"
  by (simp add: field_text_def)

lemma trimmed_field_text: "trimmed (field_text kvs k d)"
  by (auto simp: field_text_def trimmed_py_strip split: option.splits json.splits)

lemma py_strip_defaults:
  "py_strip ''Untitled'' = ''Untitled''" "py_strip ''Nondescript'' = ''Nondescript''"
  "py_strip ''Other'' = ''Other''" "py_strip [] = []"
  by (simp_all add: py_strip_def is_space_def)

lemma trimmed_defaults: "trimmed ''Nondescript''" "trimmed ''Other''"
  by (simp_all add: trimmed_def is_space_def)

lemma parse_reply_object:
  "loads (json_str (py_strip reply)) = Loaded v \<Longrightarrow> parse_reply loads reply = extract_fields v"
  by (simp add: parse_reply_def Let_def)

section \<open>The steps of an upload and the results of \<open>classify\<close>\<close>

lemma acquire_file:
  assumes "file_given f"
  shows "\<exists>filename content. f = Some (filename, content) \<and> filename \<noteq> [] \<and>
     acquire e f u w = stage_upload e filename content w"
  using assms
  by (auto simp: acquire_def file_given_def split: option.splits)

lemma stage_upload_cases:
  "stage_upload e filename content w =
     (case save_error e (staged_path e filename) content of
        Some x \<Rightarrow>
          (Inl (LibraryError x),
           w\<lparr> calls := calls w @ [FileSave (staged_path e filename) content] \<rparr>)
      | None \<Rightarrow>
          (case open_error e (staged_path e filename) of
             Some x \<Rightarrow> Inl (LibraryError x)
           | None \<Rightarrow> Inr (Some (staged_path e filename), ''File: '' @ filename, content),
           w\<lparr> calls := calls w @ [FileSave (staged_path e filename) content],
              files := (files w)(staged_path e filename \<mapsto> content) \<rparr>))"
  by (simp add: stage_upload_def Let_def split: option.splits)

lemma stage_upload_frame:
  assumes "stage_upload e filename content w = (r, w1)"
  shows "rows w1 = rows w \<and> seq w1 = seq w \<and>
         calls w1 = calls w @ [FileSave (staged_path e filename) content] \<and>
         files w1 =
           (if save_error e (staged_path e filename) content = None
            then (files w)(staged_path e filename \<mapsto> content) else files w)"
  using assms by (auto simp: stage_upload_cases split: option.splits)

lemma acquire_url:
  assumes "\<not> file_given f"
  shows "acquire e f u w =
       (bind_err (lib_result (requests_get e u)) (\<lambda>content. Inr (None, ''URL: '' @ u, content)),
        w\<lparr> calls := calls w @ [HttpGet u] \<rparr>)"
  using assms by (simp add: acquire_def Let_def)

lemma acquire_frame:
  assumes "acquire e f u w = (r, w1)"
  shows "rows w1 = rows w \<and> seq w1 = seq w"
proof (cases "file_given f")
  case True
  from acquire_file[OF True, of e u w] assms stage_upload_frame show ?thesis by metis
next
  case False
  from acquire_url[OF False, of e u w] assms show ?thesis by auto
qed

lemma classify_frame:
  assumes "classify e k t w = (r, w')"
  shows "rows w' = rows w \<and> seq w' = seq w \<and> files w' = files w \<and>
         calls w' = calls w @ [ChatCompletion k (take 8000 t)]"
  using assms by (auto simp: classify_def Let_def)

lemma index_upload_Redirect:
  assumes "index_upload e form w = (Redirect, w')"
  shows "\<exists>file_path source pdf_bytes w1 text result w2.
      py_strip (param_get (form_api_key form) []) \<noteq> [] \<and>
      (file_given (form_pdf_file form) \<or> py_strip (param_get (form_pdf_url form) []) \<noteq> []) \<and>
      acquire e (form_pdf_file form) (py_strip (param_get (form_pdf_url form) [])) w =
        (Inr (file_path, source, pdf_bytes), w1) \<and>
      extract_text e pdf_bytes = Inr text \<and> py_strip text \<noteq> [] \<and>
      classify e (py_strip (param_get (form_api_key form) [])) text w1 = (Inr result, w2) \<and>
      w' = save_whitepaper e (title result) source (main_category result) (industry result)
             (short_summary result) file_path w2"
  using assms
  by (auto simp: index_upload_def Let_def error_banner_def
      split: if_splits prod.splits sum.splits)

lemma index_upload_Failed:
  assumes "index_upload e form w = (Failed m, w')"
  shows "(w' = w \<or>
          (\<exists>r w1. acquire e (form_pdf_file form) (py_strip (param_get (form_pdf_url form) [])) w = (r, w1) \<and>
             (w' = w1 \<or> (\<exists>k t x. classify e k t w1 = (Inl x, w')))))"
  using assms
  by (auto simp: index_upload_def Let_def error_banner_def
      split: if_splits prod.splits sum.splits)

lemma parse_reply_Inr:
  assumes "parse_reply loads reply = Inr r"
  shows "\<exists>kvs. loads (json_str (py_strip reply)) = Loaded (JObject kvs) \<and>
           (\<forall>k \<in> set text_keys. text_or_absent kvs k) \<and> r = fields_result kvs"
proof (cases "loads (json_str (py_strip reply))")
  case (Loaded v)
  then have p: "extract_fields v = Inr r" using assms by (simp add: parse_reply_def Let_def)
  show ?thesis
  proof (cases "\<exists>kvs. v = JObject kvs")
    case True
    then obtain kvs where "v = JObject kvs" by blast
    with p Loaded show ?thesis by (simp add: extract_fields_Inr_iff)
  next
    case False
    then have "extract_fields v = Inl (AttributeError (type_name v) ''get'')"
      by (simp add: extract_fields_not_dict)
    with p show ?thesis by simp
  qed
next
  case (JSONDecodeError x)
  with assms show ?thesis by (simp add: parse_reply_def Let_def)
next
  case (LoadsRaised x)
  with assms show ?thesis by (simp add: parse_reply_def Let_def)
qed

lemma fields_result_closed:
  "main_category (fields_result kvs) \<in> set MAIN_CATEGORIES \<and>
   industry (fields_result kvs) \<in> set INDUSTRIES"
  by (simp add: fields_result_def) (simp add: MAIN_CATEGORIES_def INDUSTRIES_def)

lemma classify_Inr:
  assumes "classify e k t w = (Inr r, w')"
  shows "\<exists>reply. chat_completion e k (take 8000 t) = Inr reply \<and>
           parse_reply (json_loads e) reply = Inr r"
  using assms
  by (auto simp: classify_def Let_def bind_err_def lib_result_def split: sum.splits)

lemma classify_closed:
  assumes "classify e k t w = (Inr r, w')"
  shows "main_category r \<in> set MAIN_CATEGORIES \<and> industry r \<in> set INDUSTRIES"
proof -
  from classify_Inr[OF assms] obtain reply where "parse_reply (json_loads e) reply = Inr r"
    by blast
  from parse_reply_Inr[OF this] obtain kvs where "r = fields_result kvs" by blast
  then show ?thesis by (simp add: fields_result_closed)
qed

lemma index_upload_rows:
  assumes "index_upload e form w = (out, w')"
  shows "(out = Redirect \<and>
          (\<exists>row. rows w' = rows w @ [row] \<and> wp_main_category row \<in> set MAIN_CATEGORIES \<and>
             wp_industry row \<in> set INDUSTRIES)) \<or>
         ((\<exists>m. out = Failed m) \<and> rows w' = rows w \<and> seq w' = seq w)"
proof (cases out)
  case Redirect
  from index_upload_Redirect[OF assms[unfolded Redirect]]
  obtain file_path source pdf_bytes w1 doc result w2 where
    a: "acquire e (form_pdf_file form) (py_strip (param_get (form_pdf_url form) [])) w =
        (Inr (file_path, source, pdf_bytes), w1)" and
    c: "classify e (py_strip (param_get (form_api_key form) [])) doc w1 = (Inr result, w2)" and
    w': "w' = save_whitepaper e (title result) source (main_category result) (industry result)
             (short_summary result) file_path w2"
    by blast
  have "rows w2 = rows w" using acquire_frame[OF a] classify_frame[OF c] by simp
  then show ?thesis using classify_closed[OF c] Redirect
    by (simp add: w' save_whitepaper_def)
next
  case (Failed m)
  from index_upload_Failed[OF assms[unfolded Failed]]
  show ?thesis using Failed acquire_frame classify_frame by metis
qed

section \<open>Sample runs\<close>

lemmas sample_defs =
  sample_loads_def sample_texts sample_env_def sample_world_def sample_row_def sample_pdf_def
  form_both_def form_url_def

lemmas parse_defs =
  parse_reply_def extract_fields_def dict_get_def bind_err_def format_error_def newline_def
  MAIN_CATEGORIES_def INDUSTRIES_def Let_def

lemmas upload_defs =
  index_upload_def acquire_def stage_upload_def extract_text_def classify_def save_whitepaper_def next_id_def
  lib_result_def param_get_def file_given_def error_banner_def UPLOAD_FOLDER_def quote_def
  staged_path_def

lemma sample_parse_scenario:
  "parse_reply sample_loads text_scenario =
     Inr \<lparr> title = ''T'', main_category = ''Retail'', industry = ''Energy'',
           short_summary = ''s'', audience = ''Retail'', audience_confidence = JInt 90,
           audience_rationale = ''r'' \<rparr>"
  by (simp add: sample_defs parse_defs string_ops)

lemma sample_parse_unlisted:
  "parse_reply sample_loads text_unlisted =
     Inr \<lparr> title = ''Untitled'', main_category = ''Nondescript'', industry = ''Other'',
           short_summary = [], audience = ''Wholesale'', audience_confidence = JInt 0,
           audience_rationale = [] \<rparr>"
  by (simp add: sample_defs parse_defs string_ops)

lemma sample_parse_null_title:
  "parse_reply sample_loads text_null_title = Inl (AttributeError ''NoneType'' ''strip'')"
  by (simp add: sample_defs parse_defs string_ops)

lemma sample_parse_number:
  "parse_reply sample_loads ''42'' = Inl (AttributeError ''int'' ''get'')"
  by (simp add: sample_defs parse_defs string_ops)

lemma sample_parse_not_json:
  "parse_reply sample_loads ''not json at all'' =
     Inl (ValueError (format_error ''not json at all''
            ''Expecting value: line 1 column 1 (char 0)''))"
  by (simp add: sample_defs parse_defs string_ops)

lemma sample_upload_both:
  "index_upload (sample_env text_scenario) form_both sample_world =
     (Redirect,
      sample_world\<lparr>
        rows := rows sample_world @
          [\<lparr> wp_id = 3, wp_title = ''T'', wp_source = ''File: a paper.pdf'',
              wp_main_category = ''Retail'', wp_industry = ''Energy'', wp_short_summary = ''s'',
              wp_file_path = Some ''uploads/1700000000_a_paper.pdf'',
              wp_created_at = ''2023-11-14T22:13:20.000123'' \<rparr>],
        seq := 3,
        files := (files sample_world)(''uploads/1700000000_a_paper.pdf'' \<mapsto> sample_pdf),
        calls := [FileSave ''uploads/1700000000_a_paper.pdf'' sample_pdf,
                  ChatCompletion ''sk-test'' (''Funds and bonds'' @ newline)] \<rparr>)"
  by (simp add: sample_defs parse_defs string_ops upload_defs)



lemma sample_upload_no_input:
  "index_upload (sample_env text_scenario) (form_url ''  '') sample_world =
     (Failed ''Please upload a PDF file or provide a PDF URL.'', sample_world)"
  by (simp add: sample_defs parse_defs string_ops upload_defs)


lemma sample_upload_no_key:
  "index_upload (sample_env text_scenario) (form_both\<lparr> form_api_key := None \<rparr>) sample_world =
     (Failed ''OpenAI API key is required.'', sample_world)"
  by (simp add: sample_defs parse_defs string_ops upload_defs)

section \<open>Closed enumerations\<close>

lemma sample_loads_unlisted:
  "sample_loads (json_str (py_strip text_unlisted)) =
     Loaded (JObject [(''audience'', JString '' Wholesale ''), (''industry'', JString ''Crypto'')])"
  by (simp add: sample_defs string_ops)

lemma sample_loads_scenario:
  "sample_loads (json_str (py_strip text_scenario)) =
     Loaded (JObject [(''title'', JString ''T''), (''audience'', JString ''Retail''),
          (''audience_confidence'', JInt 90), (''audience_rationale'', JString ''r''),
          (''industry'', JString ''Energy''), (''short_summary'', JString ''s'')])"
  by (simp add: sample_defs string_ops)

text \<open>
  Claim C1. When the text parsed for a reply is a JSON object and \<open>classify\<close> returns a
  result, its \<open>main_category\<close> is one of the three main categories and its \<open>industry\<close>
  is in the industry list (14 entries, \<open>Other\<close> among them): a trimmed audience outside
  the three categories gives \<open>Nondescript\<close>, a trimmed industry outside the list gives
  \<open>Other\<close>, and a value inside is kept. An upload leaves the rows as they were or appends
  exactly one row, whose \<open>main_category\<close> and \<open>industry\<close> are in these sets.
\<close>

theorem closed_enumerations:
  "(loads (json_str (py_strip reply)) = Loaded (JObject kvs) \<and> parse_reply loads reply = Inr r \<longrightarrow>
      main_category r \<in> set MAIN_CATEGORIES \<and> industry r \<in> set INDUSTRIES \<and>
      (\<forall>a. map_of kvs ''audience'' = Some (JString a) \<and> py_strip a \<notin> set MAIN_CATEGORIES \<longrightarrow>
         main_category r = ''Nondescript'') \<and>
      (\<forall>a. map_of kvs ''audience'' = Some (JString a) \<and> py_strip a \<in> set MAIN_CATEGORIES \<longrightarrow>
         main_category r = py_strip a) \<and>
      (\<forall>i. map_of kvs ''industry'' = Some (JString i) \<and> py_strip i \<notin> set INDUSTRIES \<longrightarrow>
         industry r = ''Other'') \<and>
      (\<forall>i. map_of kvs ''industry'' = Some (JString i) \<and> py_strip i \<in> set INDUSTRIES \<longrightarrow>
         industry r = py_strip i)) \<and>
   (index_upload e form w = (out, w') \<longrightarrow>
      rows w' = rows w \<or>
      (\<exists>row. rows w' = rows w @ [row] \<and> wp_main_category row \<in> set MAIN_CATEGORIES \<and>
         wp_industry row \<in> set INDUSTRIES)) \<and>
   set MAIN_CATEGORIES = {''Retail'', ''Institutional'', ''Nondescript''} \<and>
   length INDUSTRIES = 14 \<and> ''Other'' \<in> set INDUSTRIES"
proof -
  have a: "loads (json_str (py_strip reply)) = Loaded (JObject kvs) \<and> parse_reply loads reply = Inr r \<longrightarrow>
      main_category r \<in> set MAIN_CATEGORIES \<and> industry r \<in> set INDUSTRIES \<and>
      (\<forall>a. map_of kvs ''audience'' = Some (JString a) \<and> py_strip a \<notin> set MAIN_CATEGORIES \<longrightarrow>
         main_category r = ''Nondescript'') \<and>
      (\<forall>a. map_of kvs ''audience'' = Some (JString a) \<and> py_strip a \<in> set MAIN_CATEGORIES \<longrightarrow>
         main_category r = py_strip a) \<and>
      (\<forall>i. map_of kvs ''industry'' = Some (JString i) \<and> py_strip i \<notin> set INDUSTRIES \<longrightarrow>
         industry r = ''Other'') \<and>
      (\<forall>i. map_of kvs ''industry'' = Some (JString i) \<and> py_strip i \<in> set INDUSTRIES \<longrightarrow>
         industry r = py_strip i)"
  proof
    assume h: "loads (json_str (py_strip reply)) = Loaded (JObject kvs) \<and> parse_reply loads reply = Inr r"
    then have "extract_fields (JObject kvs) = Inr r" by (auto simp: parse_reply_def Let_def)
    then have r: "r = fields_result kvs" by (simp add: extract_fields_Inr_iff)
    have c: "main_category r \<in> set MAIN_CATEGORIES \<and> industry r \<in> set INDUSTRIES"
      unfolding r by (rule fields_result_closed)
    have m: "\<And>a. map_of kvs ''audience'' = Some (JString a) \<Longrightarrow>
        main_category r = (if py_strip a \<notin> set MAIN_CATEGORIES then ''Nondescript'' else py_strip a)"
      by (simp add: r fields_result_def field_text_present)
    have i: "\<And>i. map_of kvs ''industry'' = Some (JString i) \<Longrightarrow>
        industry r = (if py_strip i \<notin> set INDUSTRIES then ''Other'' else py_strip i)"
      by (simp add: r fields_result_def field_text_present)
    from c m i show "main_category r \<in> set MAIN_CATEGORIES \<and> industry r \<in> set INDUSTRIES \<and>
      (\<forall>a. map_of kvs ''audience'' = Some (JString a) \<and> py_strip a \<notin> set MAIN_CATEGORIES \<longrightarrow>
         main_category r = ''Nondescript'') \<and>
      (\<forall>a. map_of kvs ''audience'' = Some (JString a) \<and> py_strip a \<in> set MAIN_CATEGORIES \<longrightarrow>
         main_category r = py_strip a) \<and>
      (\<forall>i. map_of kvs ''industry'' = Some (JString i) \<and> py_strip i \<notin> set INDUSTRIES \<longrightarrow>
         industry r = ''Other'') \<and>
      (\<forall>i. map_of kvs ''industry'' = Some (JString i) \<and> py_strip i \<in> set INDUSTRIES \<longrightarrow>
         industry r = py_strip i)"
      by simp
  qed
  have b: "index_upload e form w = (out, w') \<longrightarrow>
      rows w' = rows w \<or>
      (\<exists>row. rows w' = rows w @ [row] \<and> wp_main_category row \<in> set MAIN_CATEGORIES \<and>
         wp_industry row \<in> set INDUSTRIES)"
    using index_upload_rows[of e form w out w'] by blast
  have c: "set MAIN_CATEGORIES = {''Retail'', ''Institutional'', ''Nondescript''} \<and>
      length INDUSTRIES = 14 \<and> ''Other'' \<in> set INDUSTRIES"
    by (simp add: MAIN_CATEGORIES_def INDUSTRIES_def)
  from a b c show ?thesis by blast
qed

theorem closed_enumerations_witness:
  "sample_loads (json_str (py_strip text_unlisted)) =
     Loaded (JObject [(''audience'', JString '' Wholesale ''), (''industry'', JString ''Crypto'')]) \<and>
   (\<exists>r. parse_reply sample_loads text_unlisted = Inr r \<and>
      main_category r = ''Nondescript'' \<and> industry r = ''Other'' \<and> audience r = ''Wholesale'') \<and>
   (\<exists>r. parse_reply sample_loads text_scenario = Inr r \<and>
      main_category r = ''Retail'' \<and> industry r = ''Energy'') \<and>
   (\<exists>w' row. index_upload (sample_env text_scenario) form_both sample_world = (Redirect, w') \<and>
      rows w' = rows sample_world @ [row] \<and> wp_main_category row = ''Retail'' \<and>
      wp_industry row = ''Energy'')"
proof -
  let ?r = "\<lparr> title = ''Untitled'', main_category = ''Nondescript'', industry = ''Other'',
           short_summary = [], audience = ''Wholesale'', audience_confidence = JInt 0,
           audience_rationale = [] \<rparr>"
  let ?s = "\<lparr> title = ''T'', main_category = ''Retail'', industry = ''Energy'',
           short_summary = ''s'', audience = ''Retail'', audience_confidence = JInt 90,
           audience_rationale = ''r'' \<rparr>"
  note u = closed_enumerations[of sample_loads text_unlisted
      "[(''audience'', JString '' Wholesale ''), (''industry'', JString ''Crypto'')]" ?r
      "sample_env text_scenario" form_both sample_world Redirect
      "snd (index_upload (sample_env text_scenario) form_both sample_world)"]
  have 1: "main_category ?r = ''Nondescript'' \<and> industry ?r = ''Other''"
    using u sample_loads_unlisted sample_parse_unlisted
    by (simp add: MAIN_CATEGORIES_def INDUSTRIES_def py_strip_def is_space_def)
  note v = closed_enumerations[of sample_loads text_scenario
      "[(''title'', JString ''T''), (''audience'', JString ''Retail''),
          (''audience_confidence'', JInt 90), (''audience_rationale'', JString ''r''),
          (''industry'', JString ''Energy''), (''short_summary'', JString ''s'')]" ?s
      "sample_env text_scenario" form_both sample_world Redirect
      "snd (index_upload (sample_env text_scenario) form_both sample_world)"]
  have 2: "main_category ?s = ''Retail'' \<and> industry ?s = ''Energy''"
    using v sample_loads_scenario sample_parse_scenario
    by (simp add: MAIN_CATEGORIES_def INDUSTRIES_def py_strip_def is_space_def)
  show ?thesis
    using 1 2 sample_loads_unlisted sample_parse_unlisted sample_parse_scenario
      sample_upload_both
    by simp
qed

section \<open>Defaults and trimming\<close>

lemma fields_result_trimmed:
  "trimmed (title (fields_result kvs)) \<and> trimmed (main_category (fields_result kvs)) \<and>
   trimmed (industry (fields_result kvs)) \<and> trimmed (short_summary (fields_result kvs)) \<and>
   trimmed (audience (fields_result kvs)) \<and> trimmed (audience_rationale (fields_result kvs))"
  by (simp add: fields_result_def trimmed_field_text trimmed_defaults)

text \<open>
  Claim C7. When the text parsed for a reply is a JSON object and \<open>classify\<close> returns a
  result: an absent \<open>title\<close> gives \<open>Untitled\<close>, an absent \<open>audience\<close> gives
  \<open>Nondescript\<close>, an absent \<open>industry\<close> gives \<open>Other\<close>, an absent \<open>short_summary\<close> or
  \<open>audience_rationale\<close> gives the empty text and an absent \<open>audience_confidence\<close> gives
  0; a text that is present is returned trimmed, and every text of the result is free of
  surrounding whitespace. A result is returned whenever each of the five text keys is
  absent or holds a str.
\<close>

theorem parse_reply_defaults:
  assumes "loads (json_str (py_strip reply)) = Loaded (JObject kvs)"
  shows
    "(parse_reply loads reply = Inr r \<longrightarrow>
        (map_of kvs ''title'' = None \<longrightarrow> title r = ''Untitled'') \<and>
        (map_of kvs ''audience'' = None \<longrightarrow> audience r = ''Nondescript'') \<and>
        (map_of kvs ''industry'' = None \<longrightarrow> industry r = ''Other'') \<and>
        (map_of kvs ''short_summary'' = None \<longrightarrow> short_summary r = []) \<and>
        (map_of kvs ''audience_confidence'' = None \<longrightarrow> audience_confidence r = JInt 0) \<and>
        (map_of kvs ''audience_rationale'' = None \<longrightarrow> audience_rationale r = []) \<and>
        (\<forall>s. map_of kvs ''title'' = Some (JString s) \<longrightarrow> title r = py_strip s) \<and>
        (\<forall>s. map_of kvs ''audience'' = Some (JString s) \<longrightarrow> audience r = py_strip s) \<and>
        (\<forall>s. map_of kvs ''short_summary'' = Some (JString s) \<longrightarrow> short_summary r = py_strip s) \<and>
        (\<forall>s. map_of kvs ''audience_rationale'' = Some (JString s) \<longrightarrow>
           audience_rationale r = py_strip s) \<and>
        (\<forall>v. map_of kvs ''audience_confidence'' = Some v \<longrightarrow> audience_confidence r = v) \<and>
        trimmed (title r) \<and> trimmed (main_category r) \<and> trimmed (industry r) \<and>
        trimmed (short_summary r) \<and> trimmed (audience r) \<and> trimmed (audience_rationale r)) \<and>
     ((\<forall>k \<in> set text_keys. text_or_absent kvs k) \<longrightarrow> (\<exists>r'. parse_reply loads reply = Inr r'))"
proof -
  have p: "parse_reply loads reply = extract_fields (JObject kvs)"
    using assms by (simp add: parse_reply_def Let_def)
  have ex: "(\<forall>k \<in> set text_keys. text_or_absent kvs k) \<longrightarrow> (\<exists>r'. parse_reply loads reply = Inr r')"
    by (simp add: p extract_fields_Inr_iff)
  have "parse_reply loads reply = Inr r \<longrightarrow>
        (map_of kvs ''title'' = None \<longrightarrow> title r = ''Untitled'') \<and>
        (map_of kvs ''audience'' = None \<longrightarrow> audience r = ''Nondescript'') \<and>
        (map_of kvs ''industry'' = None \<longrightarrow> industry r = ''Other'') \<and>
        (map_of kvs ''short_summary'' = None \<longrightarrow> short_summary r = []) \<and>
        (map_of kvs ''audience_confidence'' = None \<longrightarrow> audience_confidence r = JInt 0) \<and>
        (map_of kvs ''audience_rationale'' = None \<longrightarrow> audience_rationale r = []) \<and>
        (\<forall>s. map_of kvs ''title'' = Some (JString s) \<longrightarrow> title r = py_strip s) \<and>
        (\<forall>s. map_of kvs ''audience'' = Some (JString s) \<longrightarrow> audience r = py_strip s) \<and>
        (\<forall>s. map_of kvs ''short_summary'' = Some (JString s) \<longrightarrow> short_summary r = py_strip s) \<and>
        (\<forall>s. map_of kvs ''audience_rationale'' = Some (JString s) \<longrightarrow>
           audience_rationale r = py_strip s) \<and>
        (\<forall>v. map_of kvs ''audience_confidence'' = Some v \<longrightarrow> audience_confidence r = v) \<and>
        trimmed (title r) \<and> trimmed (main_category r) \<and> trimmed (industry r) \<and>
        trimmed (short_summary r) \<and> trimmed (audience r) \<and> trimmed (audience_rationale r)"
  proof
    assume "parse_reply loads reply = Inr r"
    then have r: "r = fields_result kvs" by (simp add: p extract_fields_Inr_iff)
    have sel: "title r = field_text kvs ''title'' ''Untitled''"
      "audience r = field_text kvs ''audience'' ''Nondescript''"
      "short_summary r = field_text kvs ''short_summary'' []"
      "audience_rationale r = field_text kvs ''audience_rationale'' []"
      "audience_confidence r = dict_get kvs ''audience_confidence'' (JInt 0)"
      by (simp_all add: r fields_result_def)
    have ind: "map_of kvs ''industry'' = None \<longrightarrow> industry r = ''Other''"
      by (simp add: r fields_result_def field_text_absent py_strip_defaults)
    have fields: "(map_of kvs ''title'' = None \<longrightarrow> title r = ''Untitled'') \<and>
        (map_of kvs ''audience'' = None \<longrightarrow> audience r = ''Nondescript'') \<and>
        (map_of kvs ''industry'' = None \<longrightarrow> industry r = ''Other'') \<and>
        (map_of kvs ''short_summary'' = None \<longrightarrow> short_summary r = []) \<and>
        (map_of kvs ''audience_confidence'' = None \<longrightarrow> audience_confidence r = JInt 0) \<and>
        (map_of kvs ''audience_rationale'' = None \<longrightarrow> audience_rationale r = []) \<and>
        (\<forall>s. map_of kvs ''title'' = Some (JString s) \<longrightarrow> title r = py_strip s) \<and>
        (\<forall>s. map_of kvs ''audience'' = Some (JString s) \<longrightarrow> audience r = py_strip s) \<and>
        (\<forall>s. map_of kvs ''short_summary'' = Some (JString s) \<longrightarrow> short_summary r = py_strip s) \<and>
        (\<forall>s. map_of kvs ''audience_rationale'' = Some (JString s) \<longrightarrow>
           audience_rationale r = py_strip s) \<and>
        (\<forall>v. map_of kvs ''audience_confidence'' = Some v \<longrightarrow> audience_confidence r = v)"
      using ind
      by (simp add: sel field_text_absent field_text_present py_strip_defaults dict_get_def)
    have trim: "trimmed (title r) \<and> trimmed (main_category r) \<and> trimmed (industry r) \<and>
        trimmed (short_summary r) \<and> trimmed (audience r) \<and> trimmed (audience_rationale r)"
      unfolding r by (rule fields_result_trimmed)
    from fields trim show "(map_of kvs ''title'' = None \<longrightarrow> title r = ''Untitled'') \<and>
        (map_of kvs ''audience'' = None \<longrightarrow> audience r = ''Nondescript'') \<and>
        (map_of kvs ''industry'' = None \<longrightarrow> industry r = ''Other'') \<and>
        (map_of kvs ''short_summary'' = None \<longrightarrow> short_summary r = []) \<and>
        (map_of kvs ''audience_confidence'' = None \<longrightarrow> audience_confidence r = JInt 0) \<and>
        (map_of kvs ''audience_rationale'' = None \<longrightarrow> audience_rationale r = []) \<and>
        (\<forall>s. map_of kvs ''title'' = Some (JString s) \<longrightarrow> title r = py_strip s) \<and>
        (\<forall>s. map_of kvs ''audience'' = Some (JString s) \<longrightarrow> audience r = py_strip s) \<and>
        (\<forall>s. map_of kvs ''short_summary'' = Some (JString s) \<longrightarrow> short_summary r = py_strip s) \<and>
        (\<forall>s. map_of kvs ''audience_rationale'' = Some (JString s) \<longrightarrow>
           audience_rationale r = py_strip s) \<and>
        (\<forall>v. map_of kvs ''audience_confidence'' = Some v \<longrightarrow> audience_confidence r = v) \<and>
        trimmed (title r) \<and> trimmed (main_category r) \<and> trimmed (industry r) \<and>
        trimmed (short_summary r) \<and> trimmed (audience r) \<and> trimmed (audience_rationale r)"
      by simp
  qed
  with ex show ?thesis by blast
qed

lemma sample_loads_empty_object:
  "sample_loads (json_str (py_strip ''{}'')) = Loaded (JObject [])"
  by (simp add: sample_defs string_ops)

lemma sample_parse_empty_object:
  "parse_reply sample_loads ''{}'' =
     Inr \<lparr> title = ''Untitled'', main_category = ''Nondescript'', industry = ''Other'',
           short_summary = [], audience = ''Nondescript'', audience_confidence = JInt 0,
           audience_rationale = [] \<rparr>"
  by (simp add: sample_defs parse_defs string_ops)

theorem parse_reply_defaults_witness:
  "sample_loads (json_str (py_strip ''{}'')) = Loaded (JObject []) \<and>
   parse_reply sample_loads ''{}'' =
     Inr \<lparr> title = ''Untitled'', main_category = ''Nondescript'', industry = ''Other'',
           short_summary = [], audience = ''Nondescript'', audience_confidence = JInt 0,
           audience_rationale = [] \<rparr> \<and>
   sample_loads (json_str (py_strip text_unlisted)) =
     Loaded (JObject [(''audience'', JString '' Wholesale ''), (''industry'', JString ''Crypto'')]) \<and>
   (\<exists>r. parse_reply sample_loads text_unlisted = Inr r \<and> title r = ''Untitled'' \<and>
      audience r = ''Wholesale'' \<and> short_summary r = [] \<and> audience_confidence r = JInt 0 \<and>
      audience_rationale r = [] \<and> trimmed (audience r))"
proof -
  let ?r = "\<lparr> title = ''Untitled'', main_category = ''Nondescript'', industry = ''Other'',
           short_summary = [], audience = ''Wholesale'', audience_confidence = JInt 0,
           audience_rationale = [] \<rparr>"
  let ?d = "\<lparr> title = ''Untitled'', main_category = ''Nondescript'', industry = ''Other'',
           short_summary = [], audience = ''Nondescript'', audience_confidence = JInt 0,
           audience_rationale = [] \<rparr>"
  note a = parse_reply_defaults[of sample_loads text_unlisted "[(''audience'', JString '' Wholesale ''), (''industry'', JString ''Crypto'')]" ?r,
      OF sample_loads_unlisted]
  note b = parse_reply_defaults[of sample_loads "''{}''" "[]" ?d, OF sample_loads_empty_object]
  have t: "trimmed (audience ?r)"
    using a sample_parse_unlisted by (simp add: py_strip_def is_space_def)
  have d: "title ?d = ''Untitled'' \<and> audience ?d = ''Nondescript''"
    using b sample_parse_empty_object by simp
  show ?thesis
    using t d sample_loads_empty_object sample_loads_unlisted sample_parse_unlisted
      sample_parse_empty_object
    by simp
qed

section \<open>The exceptions of \<open>classify\<close>\<close>

lemma extract_fields_bad_title:
  assumes "map_of kvs ''title'' = Some v" "\<forall>s. v \<noteq> JString s"
  shows "extract_fields (JObject kvs) = Inl (AttributeError (type_name v) ''strip'')"
  using assms strip_method_Inl[of v]
  by (simp add: extract_fields_def dict_get_def bind_err_def)

lemma extract_fields_bad_audience:
  assumes "text_or_absent kvs ''title''" "map_of kvs ''audience'' = Some v" "\<forall>s. v \<noteq> JString s"
  shows "extract_fields (JObject kvs) = Inl (AttributeError (type_name v) ''strip'')"
proof -
  have "strip_method (dict_get kvs ''audience'' (JString ''Nondescript'')) =
      Inl (AttributeError (type_name v) ''strip'')"
    using assms(2,3) strip_method_Inl[of v] by (simp add: dict_get_def)
  then show ?thesis
    using strip_field_ok[OF assms(1), of "''Untitled''"]
    by (simp add: extract_fields_def bind_err_def)
qed

lemma parse_reply_ValueError_iff:
  "(\<exists>m. parse_reply loads reply = Inl (ValueError m)) \<longleftrightarrow>
   (\<exists>e. loads (json_str (py_strip reply)) = JSONDecodeError e)"
proof (cases "loads (json_str (py_strip reply))")
  case (Loaded v)
  then have p: "parse_reply loads reply = extract_fields v" by (simp add: parse_reply_def Let_def)
  have "\<not> (\<exists>m. extract_fields v = Inl (ValueError m))"
  proof (cases "\<exists>kvs. v = JObject kvs")
    case True
    then obtain kvs where v: "v = JObject kvs" by blast
    show ?thesis
    proof (cases "\<forall>k \<in> set text_keys. text_or_absent kvs k")
      case True
      then show ?thesis by (simp add: v extract_fields_ok)
    next
      case False
      from extract_fields_bad[OF False] show ?thesis by (auto simp: v)
    qed
  next
    case False
    then show ?thesis by (simp add: extract_fields_not_dict)
  qed
  with p Loaded show ?thesis by simp
next
  case (JSONDecodeError e)
  then show ?thesis by (simp add: parse_reply_def Let_def)
next
  case (LoadsRaised m)
  then show ?thesis by (simp add: parse_reply_def Let_def)
qed

lemma py_strip_replicate: "\<not> is_space c \<Longrightarrow> py_strip (replicate n c) = replicate n c"
  by (simp add: py_strip_def)

lemma json_str_replicate:
  "c \<noteq> CHR ''{'' \<Longrightarrow> json_str (replicate n c) = replicate n c"
  by (rule json_str_absent) auto

lemma text_deep_slice: "json_str (py_strip text_deep) = text_deep"
  unfolding text_deep_def
  by (simp add: py_strip_replicate json_str_replicate is_space_def)

lemma parse_reply_raised:
  "loads (json_str (py_strip reply)) = LoadsRaised x \<Longrightarrow>
   parse_reply loads reply = Inl (LibraryError x)"
  by (simp add: parse_reply_def Let_def)

text \<open>
  Claim C8, as amended. \<open>classify\<close> raises its \<open>ValueError\<close>, whose message holds the
  stripped reply after \<open>Raw reply was:\<close> and the parser's detail after \<open>JSON error:\<close>,
  exactly when \<open>json.loads\<close> raises \<open>JSONDecodeError\<close> on the chosen text; any other
  exception of \<open>json.loads\<close> is not caught and leaves \<open>classify\<close> as it is.
  A parsed value that is not a dict raises \<open>AttributeError\<close> for \<open>get\<close>; a
  dict in which \<open>title\<close>, or \<open>audience\<close> after a fine \<open>title\<close>, is present with a value
  that is not a str (such as \<open>null\<close>) raises \<open>AttributeError\<close> for \<open>strip\<close>. For a dict
  the result exists exactly when each of the five text keys is absent or a str; the
  defaults are not applied to a key that is present.
\<close>

theorem parse_reply_errors:
  "((\<exists>m. parse_reply loads reply = Inl (ValueError m)) \<longleftrightarrow>
      (\<exists>e. loads (json_str (py_strip reply)) = JSONDecodeError e)) \<and>
   (\<forall>e. loads (json_str (py_strip reply)) = JSONDecodeError e \<longrightarrow>
      parse_reply loads reply = Inl (ValueError
           (''Model did not return valid JSON.'' @ [CHR 0x0A, CHR 0x0A] @ ''Raw reply was:'' @ [CHR 0x0A] @
            py_strip reply @ [CHR 0x0A, CHR 0x0A] @ ''JSON error: '' @ e))) \<and>
   (\<forall>x. loads (json_str (py_strip reply)) = LoadsRaised x \<longrightarrow>
      parse_reply loads reply = Inl (LibraryError x)) \<and>
   (\<forall>v. loads (json_str (py_strip reply)) = Loaded v \<and> (\<forall>kvs. v \<noteq> JObject kvs) \<longrightarrow>
      parse_reply loads reply = Inl (AttributeError (type_name v) ''get'')) \<and>
   (\<forall>kvs v. loads (json_str (py_strip reply)) = Loaded (JObject kvs) \<and>
      map_of kvs ''title'' = Some v \<and> (\<forall>s. v \<noteq> JString s) \<longrightarrow>
      parse_reply loads reply = Inl (AttributeError (type_name v) ''strip'')) \<and>
   (\<forall>kvs v. loads (json_str (py_strip reply)) = Loaded (JObject kvs) \<and>
      text_or_absent kvs ''title'' \<and> map_of kvs ''audience'' = Some v \<and> (\<forall>s. v \<noteq> JString s) \<longrightarrow>
      parse_reply loads reply = Inl (AttributeError (type_name v) ''strip'')) \<and>
   (\<forall>kvs. loads (json_str (py_strip reply)) = Loaded (JObject kvs) \<longrightarrow>
      (if \<forall>k \<in> set text_keys. text_or_absent kvs k
       then parse_reply loads reply = Inr (fields_result kvs)
       else \<exists>ty. parse_reply loads reply = Inl (AttributeError ty ''strip'')))"
proof -
  have 1: "\<forall>e. loads (json_str (py_strip reply)) = JSONDecodeError e \<longrightarrow>
      parse_reply loads reply = Inl (ValueError
           (''Model did not return valid JSON.'' @ [CHR 0x0A, CHR 0x0A] @ ''Raw reply was:'' @ [CHR 0x0A] @
            py_strip reply @ [CHR 0x0A, CHR 0x0A] @ ''JSON error: '' @ e))"
    by (simp add: parse_reply_def Let_def format_error_def newline_def)
  have 2: "\<forall>v. loads (json_str (py_strip reply)) = Loaded v \<and> (\<forall>kvs. v \<noteq> JObject kvs) \<longrightarrow>
      parse_reply loads reply = Inl (AttributeError (type_name v) ''get'')"
    by (auto simp: parse_reply_def Let_def extract_fields_not_dict)
  have 3: "\<forall>kvs v. loads (json_str (py_strip reply)) = Loaded (JObject kvs) \<and>
      map_of kvs ''title'' = Some v \<and> (\<forall>s. v \<noteq> JString s) \<longrightarrow>
      parse_reply loads reply = Inl (AttributeError (type_name v) ''strip'')"
    by (auto simp: parse_reply_def Let_def extract_fields_bad_title)
  have 4: "\<forall>kvs v. loads (json_str (py_strip reply)) = Loaded (JObject kvs) \<and>
      text_or_absent kvs ''title'' \<and> map_of kvs ''audience'' = Some v \<and> (\<forall>s. v \<noteq> JString s) \<longrightarrow>
      parse_reply loads reply = Inl (AttributeError (type_name v) ''strip'')"
    by (auto simp: parse_reply_def Let_def extract_fields_bad_audience)
  have 5: "\<forall>kvs. loads (json_str (py_strip reply)) = Loaded (JObject kvs) \<longrightarrow>
      (if \<forall>k \<in> set text_keys. text_or_absent kvs k
       then parse_reply loads reply = Inr (fields_result kvs)
       else \<exists>ty. parse_reply loads reply = Inl (AttributeError ty ''strip''))"
    using extract_fields_ok extract_fields_bad
    by (auto simp: parse_reply_def Let_def)
  have 6: "\<forall>x. loads (json_str (py_strip reply)) = LoadsRaised x \<longrightarrow>
      parse_reply loads reply = Inl (LibraryError x)"
    by (simp add: parse_reply_raised)
  from parse_reply_ValueError_iff[of loads reply] 1 2 3 4 5 6 show ?thesis by blast
qed

lemma sample_loads_values:
  "sample_loads (json_str (py_strip ''42'')) = Loaded (JInt 42)"
  "sample_loads (json_str (py_strip text_null_title)) = Loaded (JObject [(''title'', JNull)])"
  "sample_loads (json_str (py_strip text_null_audience)) = Loaded (JObject [(''audience'', JNull)])"
  "sample_loads (json_str (py_strip ''not json at all'')) =
     JSONDecodeError ''Expecting value: line 1 column 1 (char 0)''"
  by (simp_all add: sample_defs string_ops)

theorem parse_reply_errors_witness:
  "sample_loads (json_str (py_strip ''42'')) = Loaded (JInt 42) \<and>
   parse_reply sample_loads ''42'' = Inl (AttributeError ''int'' ''get'') \<and>
   sample_loads (json_str (py_strip text_null_title)) = Loaded (JObject [(''title'', JNull)]) \<and>
   parse_reply sample_loads text_null_title = Inl (AttributeError ''NoneType'' ''strip'') \<and>
   sample_loads (json_str (py_strip text_null_audience)) = Loaded (JObject [(''audience'', JNull)]) \<and>
   text_or_absent [(''audience'', JNull)] ''title'' \<and>
   parse_reply sample_loads text_null_audience = Inl (AttributeError ''NoneType'' ''strip'') \<and>
   sample_loads (json_str (py_strip ''not json at all'')) =
     JSONDecodeError ''Expecting value: line 1 column 1 (char 0)'' \<and>
   parse_reply sample_loads ''not json at all'' =
     Inl (ValueError
       (''Model did not return valid JSON.'' @ [CHR 0x0A, CHR 0x0A] @ ''Raw reply was:'' @ [CHR 0x0A] @
        ''not json at all'' @ [CHR 0x0A, CHR 0x0A] @ ''JSON error: '' @ ''Expecting value: line 1 column 1 (char 0)'')) \<and>
   deep_loads (json_str (py_strip text_deep)) =
     LoadsRaised
       ''maximum recursion depth exceeded while decoding a JSON array from a unicode string'' \<and>
   parse_reply deep_loads text_deep =
     Inl (LibraryError
       ''maximum recursion depth exceeded while decoding a JSON array from a unicode string'')"
  using parse_reply_errors[of sample_loads "''42''"]
    parse_reply_errors[of sample_loads text_null_title]
    parse_reply_errors[of sample_loads text_null_audience]
    parse_reply_errors[of sample_loads "''not json at all''"]
    parse_reply_errors[of deep_loads text_deep]
    sample_loads_values
  by (simp add: py_strip_def is_space_def text_or_absent_def text_deep_slice[unfolded py_strip_def]
      deep_loads_def)

theorem json_loads_other_failure_counterexample:
  "deep_loads (json_str (py_strip text_deep)) =
     LoadsRaised
       ''maximum recursion depth exceeded while decoding a JSON array from a unicode string'' \<and>
   parse_reply deep_loads text_deep =
     Inl (LibraryError
       ''maximum recursion depth exceeded while decoding a JSON array from a unicode string'')"
  by (simp add: parse_reply_def Let_def text_deep_slice deep_loads_def)

section \<open>Replies without braces, and objects inside prose\<close>

lemma set_py_strip: "set (py_strip s) \<subseteq> set s"
proof -
  have "set (py_strip s) = set (dropWhile is_space (rev (dropWhile is_space s)))"
    by (simp add: py_strip_def)
  also have "\<dots> \<subseteq> set (rev (dropWhile is_space s))"
    by (auto dest: set_dropWhileD)
  also have "\<dots> \<subseteq> set s"
    by (auto dest: set_dropWhileD)
  finally show ?thesis .
qed

lemma braces_not_space: "\<not> is_space (CHR ''{'')" "\<not> is_space (CHR ''}'')"
  by (simp_all add: is_space_def)

lemma py_strip_around_object:
  "py_strip (pre @ CHR ''{'' # mid @ CHR ''}'' # post) =
     dropWhile is_space pre @ CHR ''{'' # mid @ CHR ''}'' # rev (dropWhile is_space (rev post))"
proof -
  have "dropWhile is_space (pre @ CHR ''{'' # mid @ CHR ''}'' # post) =
      dropWhile is_space pre @ CHR ''{'' # mid @ CHR ''}'' # post"
    by (simp add: dropWhile_append3 braces_not_space)
  moreover have "dropWhile is_space (rev post @ CHR ''}'' # rev mid @ CHR ''{'' # rev (dropWhile is_space pre)) =
      dropWhile is_space (rev post) @ CHR ''}'' # rev mid @ CHR ''{'' # rev (dropWhile is_space pre)"
    by (simp add: dropWhile_append3 braces_not_space)
  ultimately show ?thesis by (simp add: py_strip_def)
qed

lemma json_str_around_object:
  assumes "CHR ''{'' \<notin> set pre" "CHR ''}'' \<notin> set post"
  shows "json_str (pre @ CHR ''{'' # mid @ CHR ''}'' # post) = CHR ''{'' # mid @ [CHR ''}'']"
proof -
  let ?c = "pre @ CHR ''{'' # mid @ CHR ''}'' # post"
  have f: "first_at (CHR ''{'') ?c (length pre)"
    using assms(1) by (simp add: first_at_def)
  have "?c = (pre @ CHR ''{'' # mid) @ CHR ''}'' # post" by simp
  then have l: "last_at (CHR ''}'') ?c (length pre + 1 + length mid)"
    using assms(2)
    by (simp add: last_at_def nth_append del: append_assoc)
  have "json_str ?c = take (length mid + 2) (drop (length pre) ?c)"
    using json_str_located[OF f l] by simp
  then show ?thesis by simp
qed

lemma json_str_strip_around_object:
  assumes "CHR ''{'' \<notin> set pre" "CHR ''}'' \<notin> set post"
  shows "json_str (py_strip (pre @ CHR ''{'' # mid @ CHR ''}'' # post)) = CHR ''{'' # mid @ [CHR ''}'']"
proof -
  have a: "CHR ''{'' \<notin> set (dropWhile is_space pre)"
    using assms(1) by (auto dest: set_dropWhileD)
  have b: "CHR ''}'' \<notin> set (rev (dropWhile is_space (rev post)))"
    using assms(2) by (auto dest: set_dropWhileD)
  show ?thesis
    unfolding py_strip_around_object by (rule json_str_around_object[OF a b])
qed

text \<open>
  Claim C3, as amended. For a reply with no \<open>{\<close> or no \<open>}\<close> the whole stripped reply is
  parsed: \<open>classify\<close> fails with the format error, carrying the stripped reply and the
  parser's detail, when \<open>json.loads\<close> rejects that text, and with an \<open>AttributeError\<close>
  when the text is valid JSON that is not an object. For a reply made of an object text
  \<open>{...}\<close> with prose before it that contains no \<open>{\<close> and prose after it that contains
  no \<open>}\<close>, the text parsed is exactly the object text, so the fields are extracted from
  the object.
\<close>

theorem reply_without_braces_or_in_prose:
  "(CHR ''{'' \<notin> set reply \<or> CHR ''}'' \<notin> set reply \<longrightarrow>
      json_str (py_strip reply) = py_strip reply \<and>
      (\<forall>e. loads (py_strip reply) = JSONDecodeError e \<longrightarrow>
         parse_reply loads reply = Inl (ValueError
           (''Model did not return valid JSON.'' @ [CHR 0x0A, CHR 0x0A] @ ''Raw reply was:'' @ [CHR 0x0A] @
            py_strip reply @ [CHR 0x0A, CHR 0x0A] @ ''JSON error: '' @ e))) \<and>
      (\<forall>v. loads (py_strip reply) = Loaded v \<and> (\<forall>kvs. v \<noteq> JObject kvs) \<longrightarrow>
         parse_reply loads reply = Inl (AttributeError (type_name v) ''get''))) \<and>
   (CHR ''{'' \<notin> set pre \<and> CHR ''}'' \<notin> set post \<and>
    loads (CHR ''{'' # mid @ [CHR ''}'']) = Loaded (JObject kvs) \<longrightarrow>
      json_str (py_strip (pre @ CHR ''{'' # mid @ CHR ''}'' # post)) = CHR ''{'' # mid @ [CHR ''}''] \<and>
      parse_reply loads (pre @ CHR ''{'' # mid @ CHR ''}'' # post) = extract_fields (JObject kvs))"
proof -
  have a: "CHR ''{'' \<notin> set reply \<or> CHR ''}'' \<notin> set reply \<longrightarrow>
      json_str (py_strip reply) = py_strip reply \<and>
      (\<forall>e. loads (py_strip reply) = JSONDecodeError e \<longrightarrow>
         parse_reply loads reply = Inl (ValueError
           (''Model did not return valid JSON.'' @ [CHR 0x0A, CHR 0x0A] @ ''Raw reply was:'' @ [CHR 0x0A] @
            py_strip reply @ [CHR 0x0A, CHR 0x0A] @ ''JSON error: '' @ e))) \<and>
      (\<forall>v. loads (py_strip reply) = Loaded v \<and> (\<forall>kvs. v \<noteq> JObject kvs) \<longrightarrow>
         parse_reply loads reply = Inl (AttributeError (type_name v) ''get''))"
  proof
    assume "CHR ''{'' \<notin> set reply \<or> CHR ''}'' \<notin> set reply"
    then have "CHR ''{'' \<notin> set (py_strip reply) \<or> CHR ''}'' \<notin> set (py_strip reply)"
      using set_py_strip[of reply] by blast
    then have j: "json_str (py_strip reply) = py_strip reply" by (rule json_str_absent)
    show "json_str (py_strip reply) = py_strip reply \<and>
      (\<forall>e. loads (py_strip reply) = JSONDecodeError e \<longrightarrow>
         parse_reply loads reply = Inl (ValueError
           (''Model did not return valid JSON.'' @ [CHR 0x0A, CHR 0x0A] @ ''Raw reply was:'' @ [CHR 0x0A] @
            py_strip reply @ [CHR 0x0A, CHR 0x0A] @ ''JSON error: '' @ e))) \<and>
      (\<forall>v. loads (py_strip reply) = Loaded v \<and> (\<forall>kvs. v \<noteq> JObject kvs) \<longrightarrow>
         parse_reply loads reply = Inl (AttributeError (type_name v) ''get''))"
      by (auto simp: j parse_reply_def Let_def extract_fields_not_dict format_error_def
          newline_def)
  qed
  have b: "CHR ''{'' \<notin> set pre \<and> CHR ''}'' \<notin> set post \<and>
    loads (CHR ''{'' # mid @ [CHR ''}'']) = Loaded (JObject kvs) \<longrightarrow>
      json_str (py_strip (pre @ CHR ''{'' # mid @ CHR ''}'' # post)) = CHR ''{'' # mid @ [CHR ''}''] \<and>
      parse_reply loads (pre @ CHR ''{'' # mid @ CHR ''}'' # post) = extract_fields (JObject kvs)"
  proof
    assume h: "CHR ''{'' \<notin> set pre \<and> CHR ''}'' \<notin> set post \<and>
      loads (CHR ''{'' # mid @ [CHR ''}'']) = Loaded (JObject kvs)"
    then have j: "json_str (py_strip (pre @ CHR ''{'' # mid @ CHR ''}'' # post)) =
        CHR ''{'' # mid @ [CHR ''}'']"
      by (simp add: json_str_strip_around_object)
    with h show "json_str (py_strip (pre @ CHR ''{'' # mid @ CHR ''}'' # post)) =
        CHR ''{'' # mid @ [CHR ''}''] \<and>
      parse_reply loads (pre @ CHR ''{'' # mid @ CHR ''}'' # post) = extract_fields (JObject kvs)"
      by (simp add: parse_reply_def Let_def)
  qed
  from a b show ?thesis by blast
qed

theorem reply_without_braces_or_in_prose_witness:
  \<open>CHR ''{'' \<notin> set ''not json at all'' \<and>
   parse_reply sample_loads ''not json at all'' =
     Inl (ValueError
       (''Model did not return valid JSON.'' @ [CHR 0x0A, CHR 0x0A] @ ''Raw reply was:'' @ [CHR 0x0A] @
        ''not json at all'' @ [CHR 0x0A, CHR 0x0A] @ ''JSON error: '' @ ''Expecting value: line 1 column 1 (char 0)'')) \<and>
   CHR ''{'' \<notin> set '' Sure! '' \<and> CHR ''}'' \<notin> set '' Done.'' \<and>
   sample_loads text_unlisted =
     Loaded (JObject [(''audience'', JString '' Wholesale ''), (''industry'', JString ''Crypto'')]) \<and>
   json_str (py_strip ('' Sure! '' @ text_unlisted @ '' Done.'')) = text_unlisted \<and>
   parse_reply sample_loads ('' Sure! '' @ text_unlisted @ '' Done.'') =
     Inr \<lparr> title = ''Untitled'', main_category = ''Nondescript'', industry = ''Other'',
           short_summary = [], audience = ''Wholesale'', audience_confidence = JInt 0,
           audience_rationale = [] \<rparr>\<close>
proof -
  note a = reply_without_braces_or_in_prose[of "''not json at all''" sample_loads
      "[]" "[]" "[]" "[]"]
  note b = reply_without_braces_or_in_prose[of "''not json at all''" sample_loads
      "'' Sure! ''" "'' Done.''"
      \<open>''"audience": " Wholesale ", "industry": "Crypto"''\<close>
      "[(''audience'', JString '' Wholesale ''), (''industry'', JString ''Crypto'')]"]
  have l: "sample_loads text_unlisted =
     Loaded (JObject [(''audience'', JString '' Wholesale ''), (''industry'', JString ''Crypto'')])"
    by (simp add: sample_defs)
  have e: "extract_fields
      (JObject [(''audience'', JString '' Wholesale ''), (''industry'', JString ''Crypto'')]) =
     Inr \<lparr> title = ''Untitled'', main_category = ''Nondescript'', industry = ''Other'',
           short_summary = [], audience = ''Wholesale'', audience_confidence = JInt 0,
           audience_rationale = [] \<rparr>"
    by (simp add: parse_defs string_ops)
  have 1: "parse_reply sample_loads ''not json at all'' =
     Inl (ValueError
       (''Model did not return valid JSON.'' @ [CHR 0x0A, CHR 0x0A] @ ''Raw reply was:'' @ [CHR 0x0A] @
        ''not json at all'' @ [CHR 0x0A, CHR 0x0A] @ ''JSON error: '' @ ''Expecting value: line 1 column 1 (char 0)''))"
    using a by (simp add: sample_defs py_strip_def is_space_def)
  have 2: "json_str (py_strip ('' Sure! '' @ text_unlisted @ '' Done.'')) = text_unlisted \<and>
      parse_reply sample_loads ('' Sure! '' @ text_unlisted @ '' Done.'') =
        extract_fields
          (JObject [(''audience'', JString '' Wholesale ''), (''industry'', JString ''Crypto'')])"
    using b l by (simp add: text_unlisted_def)
  from 1 2 l e show ?thesis by simp
qed

theorem reply_without_braces_counterexample:
  "CHR ''{'' \<notin> set ''42'' \<and> CHR ''}'' \<notin> set ''42'' \<and>
   parse_reply sample_loads ''42'' = Inl (AttributeError ''int'' ''get'') \<and>
   sample_loads text_title_only = Loaded (JObject [(''title'', JString ''T'')]) \<and>
   parse_reply sample_loads (''Note {sic}: '' @ text_title_only) =
     Inl (ValueError
       (''Model did not return valid JSON.'' @ [CHR 0x0A, CHR 0x0A] @ ''Raw reply was:'' @ [CHR 0x0A] @
        (''Note {sic}: '' @ text_title_only) @ [CHR 0x0A, CHR 0x0A] @ ''JSON error: '' @ ''Expecting property name enclosed in double quotes: line 1 column 2 (char 1)''))"
  by (simp add: sample_defs parse_defs string_ops)

section \<open>The upload: guard, calls and files\<close>

lemma index_upload_no_key:
  "py_strip (param_get (form_api_key form) []) = [] \<Longrightarrow>
   index_upload e form w = (Failed ''OpenAI API key is required.'', w)"
  by (simp add: index_upload_def Let_def)

lemma index_upload_no_input:
  "py_strip (param_get (form_api_key form) []) \<noteq> [] \<Longrightarrow>
   \<not> file_given (form_pdf_file form) \<Longrightarrow> py_strip (param_get (form_pdf_url form) []) = [] \<Longrightarrow>
   index_upload e form w = (Failed ''Please upload a PDF file or provide a PDF URL.'', w)"
  by (simp add: index_upload_def Let_def)

lemma acquire_url_ignored:
  "file_given f \<Longrightarrow> acquire e f u w = acquire e f u' w"
  by (auto simp: acquire_def file_given_def Let_def split: option.splits)

lemma index_upload_url_ignored:
  assumes "file_given (form_pdf_file form)"
  shows "index_upload e (form\<lparr> form_pdf_url := u \<rparr>) w = index_upload e form w"
  using assms
    acquire_url_ignored[OF assms, of e "py_strip (param_get u [])" w
      "py_strip (param_get (form_pdf_url form) [])"]
  by (simp add: index_upload_def Let_def)

lemma index_upload_past_guard:
  assumes "py_strip (param_get (form_api_key form) []) \<noteq> []"
    "file_given (form_pdf_file form) \<or> py_strip (param_get (form_pdf_url form) []) \<noteq> []"
    "acquire e (form_pdf_file form) (py_strip (param_get (form_pdf_url form) [])) w = (r, w1)"
  shows "files (snd (index_upload e form w)) = files w1 \<and>
     (calls (snd (index_upload e form w)) = calls w1 \<or>
      (\<exists>k t. calls (snd (index_upload e form w)) = calls w1 @ [ChatCompletion k t]))"
  using assms
  by (auto simp: index_upload_def Let_def classify_def save_whitepaper_def
      split: sum.splits prod.splits)

lemma index_upload_file_calls:
  assumes "py_strip (param_get (form_api_key form) []) \<noteq> []" "file_given (form_pdf_file form)"
  shows "\<exists>filename content cs. form_pdf_file form = Some (filename, content) \<and>
     calls (snd (index_upload e form w)) =
       calls w @ FileSave (staged_path e filename) content # cs \<and>
     (\<forall>u. HttpGet u \<notin> set cs)"
proof -
  let ?u = "py_strip (param_get (form_pdf_url form) [])"
  from acquire_file[OF assms(2), of e ?u w]
  obtain filename content where
    f: "form_pdf_file form = Some (filename, content)" and
    a: "acquire e (form_pdf_file form) ?u w = stage_upload e filename content w"
    by blast
  obtain r w1 where s: "stage_upload e filename content w = (r, w1)"
    by (cases "stage_upload e filename content w") auto
  from stage_upload_frame[OF s]
  have c: "calls w1 = calls w @ [FileSave (staged_path e filename) content]" by simp
  from index_upload_past_guard[OF assms(1) _ a[unfolded s]] assms(2)
  have "calls (snd (index_upload e form w)) = calls w1 \<or>
      (\<exists>k t. calls (snd (index_upload e form w)) = calls w1 @ [ChatCompletion k t])"
    by simp
  with c f show ?thesis by auto
qed

lemma index_upload_url_calls:
  assumes "py_strip (param_get (form_api_key form) []) \<noteq> []"
    "\<not> file_given (form_pdf_file form)" "py_strip (param_get (form_pdf_url form) []) \<noteq> []"
  shows "\<exists>cs. calls (snd (index_upload e form w)) =
       calls w @ HttpGet (py_strip (param_get (form_pdf_url form) [])) # cs"
  using index_upload_past_guard[OF assms(1) _ acquire_url[OF assms(2)], of e w] assms(3)
  by auto




section \<open>Failed uploads\<close>




section \<open>The entry guard of an upload\<close>

text \<open>
  Claim C5, as amended. Without an API key (after trimming) the upload fails with the key
  message, and with a key but neither a file nor a URL it fails with the input message;
  in both cases the state is returned as it was: no file staged, no HTTP fetch, no model
  call. With a key and a file the URL field plays no role: the file is staged first and
  no HTTP fetch follows. With a key, no file and a URL, the first call is the HTTP fetch
  of that URL.
\<close>

theorem upload_entry_guard:
  "(py_strip (param_get (form_api_key form) []) = [] \<longrightarrow>
      index_upload e form w = (Failed ''OpenAI API key is required.'', w)) \<and>
   (py_strip (param_get (form_api_key form) []) \<noteq> [] \<and> \<not> file_given (form_pdf_file form) \<and>
    py_strip (param_get (form_pdf_url form) []) = [] \<longrightarrow>
      index_upload e form w = (Failed ''Please upload a PDF file or provide a PDF URL.'', w)) \<and>
   (py_strip (param_get (form_api_key form) []) \<noteq> [] \<and> file_given (form_pdf_file form) \<longrightarrow>
      index_upload e (form\<lparr> form_pdf_url := u \<rparr>) w = index_upload e form w \<and>
      (\<exists>filename content cs. form_pdf_file form = Some (filename, content) \<and>
         calls (snd (index_upload e form w)) =
           calls w @ FileSave (staged_path e filename) content # cs \<and>
         (\<forall>url. HttpGet url \<notin> set cs))) \<and>
   (py_strip (param_get (form_api_key form) []) \<noteq> [] \<and> \<not> file_given (form_pdf_file form) \<and>
    py_strip (param_get (form_pdf_url form) []) \<noteq> [] \<longrightarrow>
      (\<exists>cs. calls (snd (index_upload e form w)) =
         calls w @ HttpGet (py_strip (param_get (form_pdf_url form) [])) # cs))"
  using index_upload_no_key[of form e w] index_upload_no_input[of form e w]
    index_upload_url_ignored[of form e u w] index_upload_file_calls[of form e w]
    index_upload_url_calls[of form e w]
  by blast

theorem upload_entry_guard_witness:
  "index_upload (sample_env text_scenario) (form_both\<lparr> form_api_key := None \<rparr>) sample_world =
     (Failed ''OpenAI API key is required.'', sample_world) \<and>
   index_upload (sample_env text_scenario) (form_url ''  '') sample_world =
     (Failed ''Please upload a PDF file or provide a PDF URL.'', sample_world) \<and>
   index_upload (sample_env text_scenario) (form_both\<lparr> form_pdf_url := None \<rparr>) sample_world =
     index_upload (sample_env text_scenario) form_both sample_world \<and>
   (\<exists>cs. calls (snd (index_upload (sample_env text_scenario)
        (form_url ''https://example.com/b.pdf'') sample_world)) =
      calls sample_world @ HttpGet ''https://example.com/b.pdf'' # cs)"
  using upload_entry_guard[of "form_both\<lparr> form_api_key := None \<rparr>" "sample_env text_scenario"
      sample_world None]
    upload_entry_guard[of "form_url ''  ''" "sample_env text_scenario" sample_world None]
    upload_entry_guard[of form_both "sample_env text_scenario" sample_world None]
    upload_entry_guard[of "form_url ''https://example.com/b.pdf''" "sample_env text_scenario"
      sample_world None]
  by (simp add: form_both_def form_url_def param_get_def file_given_def py_strip_def is_space_def)

theorem upload_file_and_url_counterexample:
  "file_given (form_pdf_file form_both) \<and>
   py_strip (param_get (form_pdf_url form_both) []) = ''https://example.com/a.pdf'' \<and>
   fst (index_upload (sample_env text_scenario) form_both sample_world) = Redirect \<and>
   map wp_source (rows (snd (index_upload (sample_env text_scenario) form_both sample_world))) =
     map wp_source (rows sample_world) @ [''File: a paper.pdf''] \<and>
   calls (snd (index_upload (sample_env text_scenario) form_both sample_world)) =
     [FileSave ''uploads/1700000000_a_paper.pdf'' sample_pdf,
      ChatCompletion ''sk-test'' (''Funds and bonds'' @ newline)]"
  using sample_upload_both
  by (simp add: form_both_def param_get_def file_given_def py_strip_def is_space_def)

section \<open>Sorting the listing\<close>

lemma py_sorted_reverse: "py_sorted k True xs = rev (py_sorted k False (rev xs))"
  by (simp add: py_sorted_def)

lemma py_sorted_mset: "mset (py_sorted k r xs) = mset xs"
  by (simp add: py_sorted_def)

lemma py_sorted_ascending: "sorted (map k (py_sorted k False xs))"
  by (simp add: py_sorted_def)

lemma py_sorted_descending: "sorted (rev (map k (py_sorted k True xs)))"
  by (simp add: py_sorted_def rev_map)

lemma py_sorted_stable:
  "filter (\<lambda>y. k y = v) (py_sorted k r xs) = filter (\<lambda>y. k y = v) xs"
proof (cases r)
  case True
  have "filter (\<lambda>y. k y = v) (rev (sort_key k (rev xs))) =
      rev (filter (\<lambda>y. k y = v) (sort_key k (rev xs)))"
    by (simp add: rev_filter)
  also have "\<dots> = rev (filter (\<lambda>y. k y = v) (rev xs))"
    by (simp only: sort_key_stable)
  also have "\<dots> = filter (\<lambda>y. k y = v) xs"
    by (simp add: rev_filter)
  finally show ?thesis using True by (simp add: py_sorted_def)
next
  case False
  then show ?thesis by (simp add: py_sorted_def sort_key_stable)
qed

lemma py_sorted_distinct_keys:
  assumes "distinct (map k xs)"
  shows "py_sorted k True xs = rev (py_sorted k False xs)"
proof -
  have inj: "inj_on k (set (rev xs))"
    using assms by (simp add: distinct_map)
  have "sort_key k (rev xs) = sort_key k xs"
    by (rule sort_key_inj_key_eq[OF _ inj]) simp_all
  then show ?thesis by (simp add: py_sorted_def)
qed

lemma string_less_lexord:
  "((s::string) < t) = ((s, t) \<in> lexord {(a, b). (of_char a :: nat) < of_char b})"
  by (simp add: list_less_def less_char_def)

text \<open>
  Claim C6, as amended. The listing sorted with direction \<open>newest\<close> is descending by the
  \<open>created_at\<close> text, compared lexicographically by code point; \<open>oldest\<close>, and any other
  direction, is ascending; a missing or blank direction means \<open>newest\<close>. The sort keeps
  the records (as a multiset) and, in both directions, the stored order of records with
  the same \<open>created_at\<close>. So \<open>newest\<close> is the reverse of \<open>oldest\<close> taken on the reversed
  input, and it is the reverse of \<open>oldest\<close> on the same input when the \<open>created_at\<close>
  values are pairwise distinct.
\<close>

theorem sort_view_order:
  "sorted (rev (map wp_created_at (sort_view ''newest'' ws))) \<and>
   sorted (map wp_created_at (sort_view ''oldest'' ws)) \<and>
   (so \<noteq> ''newest'' \<longrightarrow> sort_view so ws = sort_view ''oldest'' ws) \<and>
   mset (sort_view so ws) = mset ws \<and>
   filter (\<lambda>r. wp_created_at r = stamp) (sort_view so ws) =
     filter (\<lambda>r. wp_created_at r = stamp) ws \<and>
   sort_order_arg None = ''newest'' \<and> sort_order_arg (Some '' '') = ''newest'' \<and>
   index_view am ai None w = index_view am ai (Some ''newest'') w \<and>
   sort_view ''newest'' ws = rev (sort_view ''oldest'' (rev ws)) \<and>
   (distinct (map wp_created_at ws) \<longrightarrow>
      sort_view ''newest'' ws = rev (sort_view ''oldest'' ws)) \<and>
   ((s < t) = ((s, t) \<in> lexord {(a, b). (of_char a :: nat) < of_char b}))"
proof -
  have d: "sort_order_arg None = ''newest'' \<and> sort_order_arg (Some '' '') = ''newest'' \<and>
      sort_order_arg (Some ''newest'') = ''newest''"
    by (simp add: sort_order_arg_def param_get_def py_strip_def is_space_def)
  then have v: "index_view am ai None w = index_view am ai (Some ''newest'') w"
    by (simp add: index_view_def)
  have r: "sort_view ''newest'' ws = rev (sort_view ''oldest'' (rev ws))"
    by (simp add: sort_view_def py_sorted_def)
  have u: "distinct (map wp_created_at ws) \<longrightarrow>
      sort_view ''newest'' ws = rev (sort_view ''oldest'' ws)"
    using py_sorted_distinct_keys[of wp_created_at ws] by (simp add: sort_view_def)
  have a: "sorted (rev (map wp_created_at (sort_view ''newest'' ws)))"
    using py_sorted_descending[of wp_created_at ws] by (simp add: sort_view_def)
  have b: "sorted (map wp_created_at (sort_view ''oldest'' ws))"
    using py_sorted_ascending[of wp_created_at ws] by (simp add: sort_view_def)
  have m: "mset (sort_view so ws) = mset ws"
    by (simp add: sort_view_def py_sorted_mset)
  have s: "filter (\<lambda>r. wp_created_at r = stamp) (sort_view so ws) =
     filter (\<lambda>r. wp_created_at r = stamp) ws"
    by (simp add: sort_view_def py_sorted_stable)
  have o: "so \<noteq> ''newest'' \<longrightarrow> sort_view so ws = sort_view ''oldest'' ws"
    by (simp add: sort_view_def)
  from a b o m s d v r u string_less_lexord[of s t] show ?thesis by blast
qed

lemma sample_sorted:
  "sort_view ''newest'' (rows sample_world) = rows sample_world"
  "sort_view ''oldest'' (rows sample_world) = rev (rows sample_world)"
  by (simp_all add: sort_view_def py_sorted_def sample_world_def sample_row_def less_char_def
      less_eq_char_def)

theorem sort_view_order_witness:
  "distinct (map wp_created_at (rows sample_world)) \<and>
   sort_view ''newest'' (rows sample_world) = rows sample_world \<and>
   sort_view ''oldest'' (rows sample_world) = rev (rows sample_world) \<and>
   sort_view ''newest'' (rows sample_world) = rev (sort_view ''oldest'' (rows sample_world))"
proof -
  have d: "distinct (map wp_created_at (rows sample_world))"
    by (simp add: sample_world_def sample_row_def)
  from sort_view_order[of "rows sample_world" "''newest''" "[]" None None sample_world "[]" "[]"] d
  have "sort_view ''newest'' (rows sample_world) = rev (sort_view ''oldest'' (rows sample_world))"
    by blast
  with d sample_sorted show ?thesis by simp
qed

theorem sort_view_ties_counterexample:
  "sort_view ''newest'' tied_rows = tied_rows \<and>
   sort_view ''oldest'' tied_rows = tied_rows \<and>
   rev tied_rows \<noteq> tied_rows \<and>
   sort_view ''newest'' tied_rows \<noteq> rev (sort_view ''oldest'' tied_rows)"
  by (simp add: sort_view_def py_sorted_def tied_rows_def sample_row_def less_char_def
      less_eq_char_def)

section \<open>Filtering the listing\<close>

lemma apply_filters_conj:
  "apply_filters fm fi ws =
     filter (\<lambda>w. (fm = [] \<or> wp_main_category w = fm) \<and> (fi = [] \<or> wp_industry w = fi)) ws"
  by (simp add: apply_filters_def Let_def)

text \<open>
  Claim C9. Filtering is equality on the two fields: with a main-category filter the
  result is exactly the records whose \<open>main_category\<close> equals it, with an industry filter
  exactly those whose \<open>industry\<close> equals it, in stored order; an empty filter lets every
  record through; both filters together give the records that pass each of them. The
  listing holds exactly the filtered records.
\<close>

theorem apply_filters_exact:
  "(fm \<noteq> [] \<longrightarrow> apply_filters fm [] ws = filter (\<lambda>w. wp_main_category w = fm) ws) \<and>
   (fi \<noteq> [] \<longrightarrow> apply_filters [] fi ws = filter (\<lambda>w. wp_industry w = fi) ws) \<and>
   apply_filters [] [] ws = ws \<and>
   (fm \<noteq> [] \<and> fi \<noteq> [] \<longrightarrow>
      apply_filters fm fi ws =
        filter (\<lambda>w. wp_main_category w = fm \<and> wp_industry w = fi) ws \<and>
      set (apply_filters fm fi ws) = set (apply_filters fm [] ws) \<inter> set (apply_filters [] fi ws)) \<and>
   mset (index_view am ai so w) =
     mset (apply_filters (py_strip (param_get am [])) (py_strip (param_get ai []))
             (load_whitepapers w))"
proof -
  have "mset (index_view am ai so w) =
     mset (apply_filters (py_strip (param_get am [])) (py_strip (param_get ai []))
             (load_whitepapers w))"
    by (simp add: index_view_def sort_view_def py_sorted_mset)
  moreover have "fm \<noteq> [] \<and> fi \<noteq> [] \<longrightarrow>
      set (apply_filters fm fi ws) = set (apply_filters fm [] ws) \<inter> set (apply_filters [] fi ws)"
    by (auto simp: apply_filters_conj)
  ultimately show ?thesis by (simp add: apply_filters_conj)
qed

theorem apply_filters_exact_witness:
  "apply_filters ''Retail'' [] (rows sample_world) =
     [sample_row 1 ''Retail'' ''Energy'' ''2023-11-14T22:13:20.000123''] \<and>
   apply_filters [] ''Energy'' (rows sample_world) = rows sample_world \<and>
   apply_filters ''Institutional'' ''Energy'' (rows sample_world) =
     [sample_row 2 ''Institutional'' ''Energy'' ''2023-11-12T08:00:00''] \<and>
   apply_filters ''Retail'' ''Banking'' (rows sample_world) = [] \<and>
   set (apply_filters ''Institutional'' ''Energy'' (rows sample_world)) =
     set (apply_filters ''Institutional'' [] (rows sample_world)) \<inter>
     set (apply_filters [] ''Energy'' (rows sample_world))"
  using apply_filters_exact[of "''Retail''" "rows sample_world" "[]" None None None sample_world]
    apply_filters_exact[of "''Institutional''" "rows sample_world" "''Energy''" None None None
      sample_world]
    apply_filters_exact[of "''Retail''" "rows sample_world" "''Banking''" None None None
      sample_world]
  by (simp add: sample_world_def sample_row_def)

section \<open>Deleting a record\<close>

lemma next_id_above_seq: "seq w < next_id w"
  by (simp add: next_id_def)

lemma delete_whitepaper_in_range:
  assumes "sqlite_int i"
  shows "\<exists>w1. delete_whitepaper e i w = Inr w1 \<and>
     rows w1 = filter (\<lambda>r. wp_id r \<noteq> i) (rows w) \<and> seq w1 = seq w"
  using assms by (simp add: delete_whitepaper_def Let_def)

lemma delete_whitepaper_absent:
  assumes "sqlite_int i" "i \<notin> wp_id ` set (rows w)"
  shows "delete_whitepaper e i w = Inr w"
proof -
  have "find (\<lambda>r. wp_id r = i) (rows w) = None"
    using assms(2) by (auto simp: find_None_iff)
  moreover have "filter (\<lambda>r. wp_id r \<noteq> i) (rows w) = rows w"
    using assms(2) by (auto simp: filter_id_conv)
  ultimately show ?thesis
    using assms(1) by (simp add: delete_whitepaper_def select_file_path_def Let_def)
qed

lemma delete_whitepaper_out_of_range:
  "\<not> sqlite_int i \<Longrightarrow>
   delete_whitepaper e i w =
     Inl (OverflowError ''Python int too large to convert to SQLite INTEGER'')"
  by (simp add: delete_whitepaper_def sqlite_overflow_def)

lemma delete_whitepaper_Inr:
  assumes "delete_whitepaper e j w = Inr w2"
  shows "rows w2 = filter (\<lambda>r. wp_id r \<noteq> j) (rows w)"
  using assms by (auto simp: delete_whitepaper_def Let_def split: if_splits)

text \<open>
  Claim C10, as amended. For an id that SQLite can hold (a signed 64-bit integer),
  \<open>delete_whitepaper\<close> returns normally, whatever \<open>os.remove\<close> does: afterwards no listed
  record has that id, the other records are listed unchanged and in the same order, and
  the id stays absent after a further delete and after a further save (the id sequence is
  kept, so an issued id is not reused). Deleting such an id that is not in the table
  returns the state as it was. For an id outside that range the first statement raises
  \<open>OverflowError\<close> and nothing is changed.
\<close>

theorem delete_whitepaper_removes:
  "(sqlite_int i \<longrightarrow>
      (\<exists>w1. delete_whitepaper e i w = Inr w1 \<and>
         (\<forall>r \<in> set (load_whitepapers w1). wp_id r \<noteq> i) \<and>
         load_whitepapers w1 = filter (\<lambda>r. wp_id r \<noteq> i) (load_whitepapers w) \<and>
         seq w1 = seq w \<and>
         (i \<notin> wp_id ` set (load_whitepapers w) \<longrightarrow> w1 = w) \<and>
         delete_whitepaper e i w1 = Inr w1 \<and>
         (\<forall>j w2. delete_whitepaper e j w1 = Inr w2 \<longrightarrow>
            (\<forall>r \<in> set (load_whitepapers w2). wp_id r \<noteq> i)) \<and>
         (i \<le> seq w \<longrightarrow>
            (\<forall>r \<in> set (load_whitepapers (save_whitepaper e ttl src cat ind summ fpath w1)).
               wp_id r \<noteq> i)))) \<and>
   (\<not> sqlite_int i \<longrightarrow>
      delete_whitepaper e i w =
        Inl (OverflowError ''Python int too large to convert to SQLite INTEGER''))"
proof -
  have a: "sqlite_int i \<longrightarrow>
      (\<exists>w1. delete_whitepaper e i w = Inr w1 \<and>
         (\<forall>r \<in> set (load_whitepapers w1). wp_id r \<noteq> i) \<and>
         load_whitepapers w1 = filter (\<lambda>r. wp_id r \<noteq> i) (load_whitepapers w) \<and>
         seq w1 = seq w \<and>
         (i \<notin> wp_id ` set (load_whitepapers w) \<longrightarrow> w1 = w) \<and>
         delete_whitepaper e i w1 = Inr w1 \<and>
         (\<forall>j w2. delete_whitepaper e j w1 = Inr w2 \<longrightarrow>
            (\<forall>r \<in> set (load_whitepapers w2). wp_id r \<noteq> i)) \<and>
         (i \<le> seq w \<longrightarrow>
            (\<forall>r \<in> set (load_whitepapers (save_whitepaper e ttl src cat ind summ fpath w1)).
               wp_id r \<noteq> i)))"
  proof
    assume r: "sqlite_int i"
    from delete_whitepaper_in_range[OF r, of e w] obtain w1 where
      d: "delete_whitepaper e i w = Inr w1" and
      rows: "rows w1 = filter (\<lambda>r. wp_id r \<noteq> i) (rows w)" and
      sq: "seq w1 = seq w"
      by blast
    have gone: "\<forall>r \<in> set (load_whitepapers w1). wp_id r \<noteq> i"
      by (simp add: load_whitepapers_def rows)
    have same: "load_whitepapers w1 = filter (\<lambda>r. wp_id r \<noteq> i) (load_whitepapers w)"
      by (simp add: load_whitepapers_def rows)
    have noop: "i \<notin> wp_id ` set (load_whitepapers w) \<longrightarrow> w1 = w"
      using delete_whitepaper_absent[OF r, of w e] d by (auto simp: load_whitepapers_def)
    have "i \<notin> wp_id ` set (rows w1)" by (auto simp: rows)
    then have idem: "delete_whitepaper e i w1 = Inr w1"
      by (rule delete_whitepaper_absent[OF r])
    have later: "\<forall>j w2. delete_whitepaper e j w1 = Inr w2 \<longrightarrow>
            (\<forall>r \<in> set (load_whitepapers w2). wp_id r \<noteq> i)"
      using delete_whitepaper_Inr by (auto simp: load_whitepapers_def rows)
    have saved: "i \<le> seq w \<longrightarrow>
            (\<forall>r \<in> set (load_whitepapers (save_whitepaper e ttl src cat ind summ fpath w1)).
               wp_id r \<noteq> i)"
      using next_id_above_seq[of w1] sq
      by (auto simp: load_whitepapers_def save_whitepaper_def rows)
    from d gone same sq noop idem later saved
    show "\<exists>w1. delete_whitepaper e i w = Inr w1 \<and>
         (\<forall>r \<in> set (load_whitepapers w1). wp_id r \<noteq> i) \<and>
         load_whitepapers w1 = filter (\<lambda>r. wp_id r \<noteq> i) (load_whitepapers w) \<and>
         seq w1 = seq w \<and>
         (i \<notin> wp_id ` set (load_whitepapers w) \<longrightarrow> w1 = w) \<and>
         delete_whitepaper e i w1 = Inr w1 \<and>
         (\<forall>j w2. delete_whitepaper e j w1 = Inr w2 \<longrightarrow>
            (\<forall>r \<in> set (load_whitepapers w2). wp_id r \<noteq> i)) \<and>
         (i \<le> seq w \<longrightarrow>
            (\<forall>r \<in> set (load_whitepapers (save_whitepaper e ttl src cat ind summ fpath w1)).
               wp_id r \<noteq> i))"
      by blast
  qed
  from a delete_whitepaper_out_of_range[of i e w] show ?thesis by blast
qed

lemma sample_delete:
  "delete_whitepaper (sample_env []) 1 sample_world =
     Inr (sample_world\<lparr> rows := [sample_row 2 ''Institutional'' ''Energy'' ''2023-11-12T08:00:00''] \<rparr>)"
  "delete_whitepaper (sample_env []) 7 sample_world = Inr sample_world"
  by (simp_all add: sample_world_def sample_row_def delete_whitepaper_def select_file_path_def
      sqlite_int_def)

theorem delete_whitepaper_removes_witness:
  "sqlite_int 1 \<and> sqlite_int 7 \<and> \<not> sqlite_int (- 9223372036854775809) \<and>
   delete_whitepaper (sample_env []) 1 sample_world =
     Inr (sample_world\<lparr> rows := [sample_row 2 ''Institutional'' ''Energy'' ''2023-11-12T08:00:00''] \<rparr>) \<and>
   7 \<notin> wp_id ` set (load_whitepapers sample_world) \<and>
   delete_whitepaper (sample_env []) 7 sample_world = Inr sample_world \<and>
   1 \<le> seq sample_world \<and>
   map wp_id (load_whitepapers
      (save_whitepaper (sample_env []) ''T'' ''File: a paper.pdf'' ''Retail'' ''Energy'' ''s'' None
         (sample_world\<lparr> rows := [sample_row 2 ''Institutional'' ''Energy'' ''2023-11-12T08:00:00''] \<rparr>))) =
     [2, 3] \<and>
   delete_whitepaper (sample_env []) (- 9223372036854775809) sample_world =
     Inl (OverflowError ''Python int too large to convert to SQLite INTEGER'')"
proof -
  note a = delete_whitepaper_removes[of 1 "sample_env []" sample_world "''T''"
      "''File: a paper.pdf''" "''Retail''" "''Energy''" "''s''" None]
  note b = delete_whitepaper_removes[of 7 "sample_env []" sample_world "''T''"
      "''File: a paper.pdf''" "''Retail''" "''Energy''" "''s''" None]
  note c = delete_whitepaper_removes[of "- 9223372036854775809" "sample_env []" sample_world
      "''T''" "''File: a paper.pdf''" "''Retail''" "''Energy''" "''s''" None]
  have r: "sqlite_int 1 \<and> sqlite_int 7 \<and> \<not> sqlite_int (- 9223372036854775809)"
    by (simp add: sqlite_int_def)
  have 7: "7 \<notin> wp_id ` set (load_whitepapers sample_world)"
    by (simp add: load_whitepapers_def sample_world_def sample_row_def)
  have d7: "delete_whitepaper (sample_env []) 7 sample_world = Inr sample_world"
    using b r 7 by auto
  have o: "delete_whitepaper (sample_env []) (- 9223372036854775809) sample_world =
     Inl (OverflowError ''Python int too large to convert to SQLite INTEGER'')"
    using c r by simp
  have s: "map wp_id (load_whitepapers
      (save_whitepaper (sample_env []) ''T'' ''File: a paper.pdf'' ''Retail'' ''Energy'' ''s'' None
         (sample_world\<lparr> rows := [sample_row 2 ''Institutional'' ''Energy'' ''2023-11-12T08:00:00''] \<rparr>))) =
     [2, 3]"
    using a
    by (simp add: load_whitepapers_def sample_world_def sample_row_def save_whitepaper_def
        next_id_def)
  from r 7 d7 o s sample_delete(1) show ?thesis
    by (simp add: sample_world_def)
qed

theorem delete_out_of_range_counterexample:
  "9223372036854775808 \<notin> wp_id ` set (load_whitepapers sample_world) \<and>
   delete_whitepaper (sample_env []) 9223372036854775808 sample_world =
     Inl (OverflowError ''Python int too large to convert to SQLite INTEGER'')"
  by (simp add: load_whitepapers_def sample_world_def sample_row_def delete_whitepaper_def
      sqlite_int_def sqlite_overflow_def)

end
